theory Spec2Isabelle
  imports Complex_Main "HOL-Library.List_Lexorder" "HOL-Library.Char_ord"
    "HOL-Library.Product_Lexorder" "HOL-Library.Log_Nat"
begin

section \<open>Exceptions\<close>

text \<open>
  A Python exception that is an instance of \<open>Exception\<close>: its class name and the text
  that \<open>str(e)\<close> gives. A computation that may raise returns a value of the sum type,
  \<open>Inl\<close> the exception.
\<close>

datatype py_exception = PyException string string

fun str_of_exception :: "py_exception \<Rightarrow> string" where
  "str_of_exception (PyException cls msg) = msg"

type_synonym 'a raises = "py_exception + 'a"

definition KeyError :: "string \<Rightarrow> py_exception" where
  "KeyError label = PyException ''KeyError'' label"

definition ValueError :: "string \<Rightarrow> py_exception" where
  "ValueError msg = PyException ''ValueError'' msg"

definition TypeError :: "string \<Rightarrow> py_exception" where
  "TypeError msg = PyException ''TypeError'' msg"

text \<open>Sequencing: the second computation runs only when the first did not raise.\<close>

definition and_then :: "'a raises \<Rightarrow> ('a \<Rightarrow> 'b raises) \<Rightarrow> 'b raises" where
  "and_then m f = (case m of Inl e \<Rightarrow> Inl e | Inr x \<Rightarrow> f x)"

section \<open>Data frames\<close>

text \<open>
  A float64 value is the rational number it stands for. The infinities and the float
  \<open>nan\<close> are no values of the model (a missing cell is \<open>NaN\<close> below). The
  arithmetic on floats is a parameter of the functions that use it, and the arithmetic
  of IEEE 754 is one instance, defined further down.
\<close>

type_synonym float64 = rat

text \<open>
  A cell of a table read by \<open>pd.read_csv\<close>: missing (\<open>NaN\<close>, also \<open>NaT\<close>), an
  integer, a float, text, or a timestamp (nanoseconds since the epoch).
\<close>

datatype cell = NaN | Num int | Flt float64 | Str string | Ts int

text \<open>
  A \<open>DataFrame\<close> with the default index: the column labels and the rows, each row
  the cells in column order.
\<close>

record frame =
  columns :: "string list"
  rows :: "cell list list"


fun label_index :: "string \<Rightarrow> string list \<Rightarrow> nat option" where
  "label_index c [] = None"
| "label_index c (x # xs) = (if x = c then Some 0 else map_option Suc (label_index c xs))"

definition cell_at :: "cell list \<Rightarrow> nat \<Rightarrow> cell" where
  "cell_at r i = (if i < length r then r ! i else NaN)"

text \<open>\<open>df[label]\<close>: the values of a column; \<open>KeyError\<close> when there is none.\<close>

definition get_column :: "string \<Rightarrow> frame \<Rightarrow> cell list raises" where
  "get_column label df =
     (case label_index label (columns df) of
        None \<Rightarrow> Inl (KeyError label)
      | Some i \<Rightarrow> Inr (map (\<lambda>r. cell_at r i) (rows df)))"

text \<open>\<open>df[labels]\<close> with a list of labels: the sub-frame of those columns, in the order asked.\<close>

definition select_columns :: "string list \<Rightarrow> frame \<Rightarrow> frame raises" where
  "select_columns labels df =
     (case filter (\<lambda>c. c \<notin> set (columns df)) labels of
        c # _ \<Rightarrow> Inl (KeyError c)
      | [] \<Rightarrow>
          Inr \<lparr>columns = labels,
               rows = map (\<lambda>r. map (\<lambda>c. case label_index c (columns df) of
                                              None \<Rightarrow> NaN | Some i \<Rightarrow> cell_at r i) labels)
                        (rows df)\<rparr>)"

text \<open>\<open>df.rename(columns=mapping)\<close>: labels the mapping does not name stay.\<close>

definition rename :: "(string \<times> string) list \<Rightarrow> frame \<Rightarrow> frame" where
  "rename mapping df =
     df\<lparr>columns := map (\<lambda>c. case map_of mapping c of None \<Rightarrow> c | Some c' \<Rightarrow> c') (columns df)\<rparr>"

text \<open>\<open>df[label] = values\<close>: overwrites the column, or appends it as the last one.\<close>

definition set_column :: "string \<Rightarrow> cell list \<Rightarrow> frame \<Rightarrow> frame" where
  "set_column label vals df =
     (case label_index label (columns df) of
        Some i \<Rightarrow> df\<lparr>rows := map (\<lambda>(r, v). r[i := v]) (zip (rows df) vals)\<rparr>
      | None \<Rightarrow>
          \<lparr>columns = columns df @ [label],
           rows = map (\<lambda>(r, v). r @ [v]) (zip (rows df) vals)\<rparr>)"

text \<open>
  \<open>pd.to_datetime\<close> on a column. How a text or a float is read as a date is a
  parameter (\<open>None\<close>: it is no date, and pandas raises). A missing value stays
  missing, an integer counts nanoseconds.
\<close>

type_synonym date_parser = "cell \<Rightarrow> int option"

fun to_datetime_cell :: "date_parser \<Rightarrow> cell \<Rightarrow> cell raises" where
  "to_datetime_cell parse NaN = Inr NaN"
| "to_datetime_cell parse (Num n) = Inr (Ts n)"
| "to_datetime_cell parse (Ts t) = Inr (Ts t)"
| "to_datetime_cell parse c =
     (case parse c of
        None \<Rightarrow> Inl (ValueError ''Unknown datetime string format'')
      | Some t \<Rightarrow> Inr (Ts t))"

fun to_datetime :: "date_parser \<Rightarrow> cell list \<Rightarrow> cell list raises" where
  "to_datetime parse [] = Inr []"
| "to_datetime parse (c # cs) =
     and_then (to_datetime_cell parse c) (\<lambda>t.
     and_then (to_datetime parse cs) (\<lambda>ts. Inr (t # ts)))"

text \<open>
  \<open>left.merge(right, on=key, how="left")\<close>. Every row of the left frame is kept, in
  order: once for each row of the right frame with the same key, and once with missing
  values when there is none. pandas matches a missing key with a missing key. A label
  other than the key that both frames have gets the suffixes \<open>_x\<close> and \<open>_y\<close>.
\<close>

definition drop_at :: "nat \<Rightarrow> 'a list \<Rightarrow> 'a list" where
  "drop_at i xs = take i xs @ drop (Suc i) xs"

definition merge_row :: "nat \<Rightarrow> nat \<Rightarrow> nat \<Rightarrow> cell list list \<Rightarrow> cell list \<Rightarrow> cell list list" where
  "merge_row i j width rrows l =
     (case filter (\<lambda>r. cell_at r j = cell_at l i) rrows of
        [] \<Rightarrow> [l @ replicate width NaN]
      | ms \<Rightarrow> map (\<lambda>r. l @ drop_at j r) ms)"

definition merge_left :: "string \<Rightarrow> frame \<Rightarrow> frame \<Rightarrow> frame raises" where
  "merge_left key left right =
     (case (label_index key (columns left), label_index key (columns right)) of
        (Some i, Some j) \<Rightarrow>
          Inr \<lparr>columns =
                 map (\<lambda>c. if c \<noteq> key \<and> c \<in> set (columns right) then c @ ''_x'' else c)
                   (columns left) @
                 map (\<lambda>c. if c \<in> set (columns left) then c @ ''_y'' else c)
                   (drop_at j (columns right)),
               rows = concat (map (merge_row i j (length (columns right) - 1) (rows right))
                        (rows left))\<rparr>
      | _ \<Rightarrow> Inl (KeyError key))"

section \<open>The data loader\<close>

text \<open>
  \<open>child.merge(accounts[["account_id", "account_name"]], on="account_id", how="left")\<close>,
  the join that \<open>load_data\<close> applies to every child table. The argument is evaluated
  first.
\<close>

definition merge_account_name :: "frame \<Rightarrow> frame \<Rightarrow> frame raises" where
  "merge_account_name child accounts =
     and_then (select_columns [''account_id'', ''account_name''] accounts) (\<lambda>names.
     merge_left ''account_id'' child names)"

definition standardize_accounts :: "frame \<Rightarrow> frame" where
  "standardize_accounts accounts =
     rename [(''ID'', ''account_id''), (''NAME'', ''account_name'')] accounts"

definition standardize_opportunities ::
  "date_parser \<Rightarrow> frame \<Rightarrow> frame \<Rightarrow> frame raises" where
  "standardize_opportunities parse accounts opportunities =
     (let opportunities = rename
            [(''ID'', ''opportunity_id''), (''ACCOUNT_ID'', ''account_id''),
             (''AMOUNT'', ''amount''), (''PROBABILITY'', ''probability''),
             (''STAGE_NAME'', ''stage''), (''CLOSE_DATE'', ''close_date'')] opportunities
      in and_then (get_column ''close_date'' opportunities) (\<lambda>raw.
         and_then (to_datetime parse raw) (\<lambda>dates.
         merge_account_name (set_column ''close_date'' dates opportunities) accounts)))"

definition standardize_contacts :: "frame \<Rightarrow> frame \<Rightarrow> frame raises" where
  "standardize_contacts accounts contacts =
     merge_account_name
       (rename [(''ID'', ''contact_id''), (''ACCOUNT_ID'', ''account_id''),
                (''NAME'', ''contact_name''), (''EMAIL'', ''email'')] contacts)
       accounts"

definition standardize_tasks ::
  "date_parser \<Rightarrow> frame \<Rightarrow> frame \<Rightarrow> frame raises" where
  "standardize_tasks parse accounts tasks =
     (let tasks = (if ''ACCOUNT_ID'' \<in> set (columns tasks)
                   then rename [(''ACCOUNT_ID'', ''account_id'')] tasks else tasks)
      in and_then
           (if ''ACTIVITY_DATE'' \<in> set (columns tasks)
            then and_then (get_column ''ACTIVITY_DATE'' tasks) (\<lambda>raw.
                 and_then (to_datetime parse raw) (\<lambda>dates.
                 Inr (set_column ''activity_date'' dates tasks)))
            else Inr tasks)
           (\<lambda>tasks.
              if ''account_id'' \<in> set (columns tasks)
              then merge_account_name tasks accounts else Inr tasks))"

text \<open>
  \<open>load_data\<close>, on the four frames that \<open>read_csv\<close> returned. The result is the
  tuple \<open>(accounts, contacts, opportunities, tasks)\<close>.
\<close>

definition load_data ::
  "date_parser \<Rightarrow> frame \<Rightarrow> frame \<Rightarrow> frame \<Rightarrow> frame \<Rightarrow>
   (frame \<times> frame \<times> frame \<times> frame) raises" where
  "load_data parse accounts opportunities contacts tasks =
     (let accounts = standardize_accounts accounts
      in and_then (standardize_opportunities parse accounts opportunities) (\<lambda>opportunities.
         and_then (standardize_contacts accounts contacts) (\<lambda>contacts.
         and_then (standardize_tasks parse accounts tasks) (\<lambda>tasks.
         Inr (accounts, contacts, opportunities, tasks)))))"

section \<open>The AI gateway\<close>

text \<open>
  The chat-completion client is an external service. One call either returns a response
  object or raises; what it does for a given prompt is an input of the model.
\<close>

record message =
  content :: string

record choice =
  message :: message

record response =
  choices :: "choice list"

type_synonym groq_client = "string \<Rightarrow> response raises"

text \<open>\<open>response.choices[0]\<close>: indexing an empty list raises \<open>IndexError\<close>.\<close>

definition first_choice :: "response \<Rightarrow> choice raises" where
  "first_choice r =
     (case choices r of
        [] \<Rightarrow> Inl (PyException ''IndexError'' ''list index out of range'')
      | c # _ \<Rightarrow> Inr c)"

text \<open>The body of the \<open>try\<close> block of \<open>ask_ai\<close>.\<close>

definition ask_ai_body :: "groq_client \<Rightarrow> string \<Rightarrow> string raises" where
  "ask_ai_body client prompt =
     and_then (client prompt) (\<lambda>r.
     and_then (first_choice r) (\<lambda>c. Inr (content (message c))))"

text \<open>
  \<open>try: ... except Exception as e: return f"AI Error: {str(e)}"\<close>. The handler catches
  every instance of \<open>Exception\<close>, which is every value of \<open>py_exception\<close>: the
  errors of the client library and of the network, and the \<open>IndexError\<close> above. The
  result is again of the raising type, so that a raise that escaped the handler would show.
\<close>

definition ask_ai :: "groq_client \<Rightarrow> string \<Rightarrow> string raises" where
  "ask_ai client prompt =
     (case ask_ai_body client prompt of
        Inr answer \<Rightarrow> Inr answer
      | Inl e \<Rightarrow> Inr (''AI Error: '' @ str_of_exception e))"

section \<open>Example tables\<close>

text \<open>
  Three accounts and five opportunities with the amounts 1000 to 5000 and the
  probability 50 throughout; the last opportunity names an account that does not exist.
\<close>

definition ex_parse :: date_parser where
  "ex_parse c =
     (case c of
        Str s \<Rightarrow> map_of [(''2024-01-31'', 1706659200000000000),
                           (''2024-02-29'', 1709164800000000000)] s
      | _ \<Rightarrow> None)"

definition ex_accounts :: frame where
  "ex_accounts =
     \<lparr>columns = [''ID'', ''NAME''],
      rows = [[Num 1, Str ''Acme''], [Num 2, Str ''Globex''], [Num 3, Str ''Initech'']]\<rparr>"

definition ex_opportunities :: frame where
  "ex_opportunities =
     \<lparr>columns = [''ID'', ''ACCOUNT_ID'', ''AMOUNT'', ''PROBABILITY'', ''STAGE_NAME'',
                 ''CLOSE_DATE''],
      rows = [[Num 11, Num 1, Num 1000, Num 50, Str ''Prospecting'', Str ''2024-01-31''],
              [Num 12, Num 2, Num 2000, Num 50, Str ''Negotiation'', Str ''2024-02-29''],
              [Num 13, Num 3, Num 3000, Num 50, Str ''Prospecting'', Str ''2024-01-31''],
              [Num 14, Num 1, Num 4000, Num 50, Str ''Closed Won'', NaN],
              [Num 15, Num 4, Num 5000, Num 50, Str ''Negotiation'', Str ''2024-02-29'']]\<rparr>"

definition ex_contacts :: frame where
  "ex_contacts =
     \<lparr>columns = [''ID'', ''ACCOUNT_ID'', ''NAME'', ''EMAIL''],
      rows = [[Num 21, Num 1, Str ''Ann'', Str ''ann@acme.example''],
              [Num 22, Num 1, Str ''Bob'', Str ''bob@acme.example''],
              [Num 23, Num 4, Str ''Cy'', Str ''cy@nowhere.example'']]\<rparr>"

definition ex_tasks :: frame where
  "ex_tasks =
     \<lparr>columns = [''ID'', ''SUBJECT''],
      rows = [[Num 31, Str ''Call''], [Num 32, Str ''Email'']]\<rparr>"

text \<open>One opportunity, no contact, and an accounts table with the account id 1 twice.\<close>

definition ex_accounts_twice :: frame where
  "ex_accounts_twice =
     \<lparr>columns = [''ID'', ''NAME''],
      rows = [[Num 1, Str ''Acme''], [Num 1, Str ''Acme GmbH'']]\<rparr>"

definition ex_one_opportunity :: frame where
  "ex_one_opportunity =
     \<lparr>columns = [''ID'', ''ACCOUNT_ID'', ''AMOUNT'', ''PROBABILITY'', ''STAGE_NAME'',
                 ''CLOSE_DATE''],
      rows = [[Num 11, Num 1, Num 1000, Num 50, Str ''Prospecting'', Str ''2024-01-31'']]\<rparr>"

definition ex_no_contacts :: frame where
  "ex_no_contacts = \<lparr>columns = [''ID'', ''ACCOUNT_ID'', ''NAME'', ''EMAIL''], rows = []\<rparr>"

text \<open>Tasks tables: the account column under its lower-case name, and an activity date.\<close>

definition ex_tasks_lower :: frame where
  "ex_tasks_lower =
     \<lparr>columns = [''account_id'', ''SUBJECT''],
      rows = [[Num 1, Str ''Call''], [Num 4, Str ''Email'']]\<rparr>"

definition ex_tasks_dated :: frame where
  "ex_tasks_dated =
     \<lparr>columns = [''SUBJECT'', ''ACTIVITY_DATE''],
      rows = [[Str ''Call'', Str ''2024-01-31'']]\<rparr>"


text \<open>What \<open>load_data\<close> returns for the example tables.\<close>

definition ex_loaded_accounts :: frame where
  "ex_loaded_accounts =
     \<lparr>columns = [''account_id'', ''account_name''],
      rows = [[Num 1, Str ''Acme''], [Num 2, Str ''Globex''], [Num 3, Str ''Initech'']]\<rparr>"

definition ex_loaded_opportunities :: frame where
  "ex_loaded_opportunities =
     \<lparr>columns = [''opportunity_id'', ''account_id'', ''amount'', ''probability'', ''stage'',
                 ''close_date'', ''account_name''],
      rows = [[Num 11, Num 1, Num 1000, Num 50, Str ''Prospecting'',
               Ts 1706659200000000000, Str ''Acme''],
              [Num 12, Num 2, Num 2000, Num 50, Str ''Negotiation'',
               Ts 1709164800000000000, Str ''Globex''],
              [Num 13, Num 3, Num 3000, Num 50, Str ''Prospecting'',
               Ts 1706659200000000000, Str ''Initech''],
              [Num 14, Num 1, Num 4000, Num 50, Str ''Closed Won'', NaN, Str ''Acme''],
              [Num 15, Num 4, Num 5000, Num 50, Str ''Negotiation'',
               Ts 1709164800000000000, NaN]]\<rparr>"

definition ex_loaded_contacts :: frame where
  "ex_loaded_contacts =
     \<lparr>columns = [''contact_id'', ''account_id'', ''contact_name'', ''email'', ''account_name''],
      rows = [[Num 21, Num 1, Str ''Ann'', Str ''ann@acme.example'', Str ''Acme''],
              [Num 22, Num 1, Str ''Bob'', Str ''bob@acme.example'', Str ''Acme''],
              [Num 23, Num 4, Str ''Cy'', Str ''cy@nowhere.example'', NaN]]\<rparr>"

section \<open>Columns\<close>

text \<open>\<open>series.dropna()\<close> and \<open>series.unique()\<close> (first occurrences, in order).\<close>

definition dropna :: "cell list \<Rightarrow> cell list" where
  "dropna vals = filter (\<lambda>v. v \<noteq> NaN) vals"

fun unique :: "cell list \<Rightarrow> cell list" where
  "unique [] = []"
| "unique (v # vals) = v # unique (filter (\<lambda>w. w \<noteq> v) vals)"

text \<open>
  The order of labels: numbers by value, timestamps by time, text by code point (the
  bytes of UTF-8 in lexicographic order).
\<close>

fun cell_key :: "cell \<Rightarrow> nat \<times> rat \<times> string" where
  "cell_key (Num n) = (0, of_int n, [])"
| "cell_key (Flt x) = (0, x, [])"
| "cell_key (Ts t) = (2, of_int t, [])"
| "cell_key (Str s) = (3, 0, s)"
| "cell_key NaN = (4, 0, [])"

fun is_num :: "cell \<Rightarrow> bool" where
  "is_num (Num n) = True"
| "is_num c = False"

fun is_str :: "cell \<Rightarrow> bool" where
  "is_str (Str s) = True"
| "is_str c = False"

fun is_flt :: "cell \<Rightarrow> bool" where
  "is_flt (Flt x) = True"
| "is_flt c = False"

fun is_ts :: "cell \<Rightarrow> bool" where
  "is_ts (Ts t) = True"
| "is_ts c = False"

text \<open>
  Python's \<open>sorted\<close> on a list of labels: it raises \<open>TypeError\<close> when it compares
  text with a number or with a timestamp.
\<close>

definition py_sorted :: "cell list \<Rightarrow> cell list raises" where
  "py_sorted vals =
     (if list_all is_str vals \<or> list_all (\<lambda>c. is_num c \<or> is_flt c) vals \<or> list_all is_ts vals
      then Inr (sort_key cell_key vals)
      else Inl (TypeError ''not supported between instances''))"

text \<open>
  \<open>series == value\<close>, cell by cell: a missing cell equals nothing, and nothing equals
  \<open>None\<close> (what a select box with no option returns).
\<close>

definition py_eq :: "cell \<Rightarrow> cell option \<Rightarrow> bool" where
  "py_eq c v = (c \<noteq> NaN \<and> v = Some c)"

text \<open>\<open>df[df[label] == value]\<close>, \<open>df.head(n)\<close>, \<open>df.empty\<close> and \<open>len(df)\<close>.\<close>

definition filter_eq :: "string \<Rightarrow> cell option \<Rightarrow> frame \<Rightarrow> frame raises" where
  "filter_eq label v df =
     and_then (get_column label df) (\<lambda>vals.
     Inr (df\<lparr>rows := map fst (filter (\<lambda>(r, c). py_eq c v) (zip (rows df) vals))\<rparr>))"

definition head :: "nat \<Rightarrow> frame \<Rightarrow> frame" where
  "head n df = df\<lparr>rows := take n (rows df)\<rparr>"

definition df_empty :: "frame \<Rightarrow> bool" where
  "df_empty df \<longleftrightarrow> rows df = [] \<or> columns df = []"

definition len :: "frame \<Rightarrow> nat" where
  "len df = length (rows df)"

text \<open>\<open>map\<close> for a function that may raise: the first raise ends it.\<close>

fun map_raises :: "('a \<Rightarrow> 'b raises) \<Rightarrow> 'a list \<Rightarrow> 'b list raises" where
  "map_raises f [] = Inr []"
| "map_raises f (x # xs) =
     and_then (f x) (\<lambda>y. and_then (map_raises f xs) (\<lambda>ys. Inr (y # ys)))"

section \<open>Numbers\<close>

text \<open>
  The float64 operations the application uses, as parameters: the conversion of an
  integer, the sum of a column (in the order the library adds), product and quotient.
\<close>

record float_ops =
  of_int64 :: "int \<Rightarrow> float64"
  fsum :: "float64 list \<Rightarrow> float64"
  fmul :: "float64 \<Rightarrow> float64 \<Rightarrow> float64"
  fdiv :: "float64 \<Rightarrow> float64 \<Rightarrow> float64"

fun int_of_cell :: "cell \<Rightarrow> int" where
  "int_of_cell (Num n) = n"
| "int_of_cell c = 0"

fun float_of_cell :: "float_ops \<Rightarrow> cell \<Rightarrow> float64" where
  "float_of_cell fl (Flt x) = x"
| "float_of_cell fl c = of_int64 fl (int_of_cell c)"


text \<open>
  \<open>series.sum()\<close>: missing values are skipped. A column of integers has an integer
  sum; with a float in the column the sum is a float; text is not summed to a number.
\<close>

definition series_sum :: "float_ops \<Rightarrow> cell list \<Rightarrow> cell raises" where
  "series_sum fl vals =
     (let xs = dropna vals
      in if list_all is_num xs then Inr (Num (sum_list (map int_of_cell xs)))
         else if list_all (\<lambda>c. is_num c \<or> is_flt c) xs
         then Inr (Flt (fsum fl (map (float_of_cell fl) xs)))
         else Inl (TypeError ''unsupported operand type''))"

text \<open>\<open>df[label].sum()\<close>\<close>

definition column_sum :: "float_ops \<Rightarrow> string \<Rightarrow> frame \<Rightarrow> cell raises" where
  "column_sum fl label df = and_then (get_column label df) (series_sum fl)"

text \<open>
  \<open>series / 100\<close> and \<open>series * series\<close>, cell by cell, in float64. The right
  operand of the product is a cell of the quotient: a float, or missing.
\<close>

fun div_100 :: "float_ops \<Rightarrow> cell \<Rightarrow> cell raises" where
  "div_100 fl NaN = Inr NaN"
| "div_100 fl (Num n) = Inr (Flt (fdiv fl (of_int64 fl n) (of_int64 fl 100)))"
| "div_100 fl (Flt x) = Inr (Flt (fdiv fl x (of_int64 fl 100)))"
| "div_100 fl c = Inl (TypeError ''unsupported operand type(s) for /'')"

fun mul_cells :: "float_ops \<Rightarrow> cell \<times> cell \<Rightarrow> cell raises" where
  "mul_cells fl (NaN, q) = Inr NaN"
| "mul_cells fl (a, NaN) = Inr NaN"
| "mul_cells fl (Num a, Flt q) = Inr (Flt (fmul fl (of_int64 fl a) q))"
| "mul_cells fl (Flt a, Flt q) = Inr (Flt (fmul fl a q))"
| "mul_cells fl (a, q) = Inl (TypeError ''unsupported operand type(s) for *'')"

text \<open>
  \<open>df.groupby(key)[value].sum().reset_index()\<close>: one row for each label of the key
  column, in the order of the labels; a row whose key is missing is in no group.
\<close>

definition groupby_sum :: "float_ops \<Rightarrow> string \<Rightarrow> string \<Rightarrow> frame \<Rightarrow> frame raises" where
  "groupby_sum fl key val df =
     and_then (get_column key df) (\<lambda>keys.
     and_then (get_column val df) (\<lambda>vals.
     let labels = sort_key cell_key (unique (dropna keys))
     in and_then
          (map_raises
             (\<lambda>k. series_sum fl (map snd (filter (\<lambda>(k', v). k' = k) (zip keys vals))))
             labels)
          (\<lambda>totals.
             Inr \<lparr>columns = [key, val], rows = map (\<lambda>(k, s). [k, s]) (zip labels totals)\<rparr>)))"

section \<open>IEEE 754 arithmetic\<close>

text \<open>
  What a float64 operation delivers is the exact result rounded to 53 significant bits,
  to the nearest such number and to the even one of two that are equally near. The range
  of the exponent is not modelled: the numbers of the dashboard (int64 amounts, percentages
  and their products) are far from overflow and from the subnormal numbers.
\<close>

definition floor_log2 :: "rat \<Rightarrow> int" where
  "floor_log2 x = (if 1 \<le> x then bitlen \<lfloor>x\<rfloor> - 1 else - bitlen (\<lceil>1 / x\<rceil> - 1))"

definition round_half_even :: "rat \<Rightarrow> int" where
  "round_half_even x =
     (let n = \<lfloor>x\<rfloor>; r = x - of_int n
      in if r < 1 / 2 then n else if 1 / 2 < r then n + 1 else if even n then n else n + 1)"

definition round_binary64 :: "rat \<Rightarrow> float64" where
  "round_binary64 x =
     (if x = 0 then 0
      else let e = floor_log2 \<bar>x\<bar> - 52
           in sgn x * of_int (round_half_even (\<bar>x\<bar> / 2 powi e)) * 2 powi e)"



section \<open>The views\<close>

text \<open>
  How pandas and Python print is a parameter: \<open>df.to_string(index=False)\<close>, and
  \<open>str\<close> of a cell that is not text.
\<close>

record rendering =
  to_string :: "frame \<Rightarrow> string"
  str_cell :: "cell \<Rightarrow> string"

definition py_str :: "rendering \<Rightarrow> cell option \<Rightarrow> string" where
  "py_str rd v =
     (case v of None \<Rightarrow> ''None'' | Some (Str s) \<Rightarrow> s | Some c \<Rightarrow> str_cell rd c)"

text \<open>The line break and the indentation of the lines of a prompt in the source.\<close>

definition nl :: string where
  "nl = [CHR 0x0A]"

definition indent :: string where
  "indent = replicate 12 CHR '' ''"

text \<open>
  \<open>st.selectbox(label, options)\<close>: the option the user chose (the first one when the
  choice is out of range), and \<open>None\<close> when there is no option.
\<close>

definition selectbox :: "'a list \<Rightarrow> nat \<Rightarrow> 'a option" where
  "selectbox options i =
     (case options of
        [] \<Rightarrow> None
      | x # _ \<Rightarrow> Some (if i < length options then options ! i else x))"

text \<open>\<open>sorted(df["account_name"].dropna().unique())\<close>, the options of both account selectors.\<close>

definition account_options :: "frame \<Rightarrow> cell list raises" where
  "account_options df =
     and_then (get_column ''account_name'' df) (\<lambda>names. py_sorted (unique (dropna names)))"

subsection \<open>Dashboard\<close>

text \<open>\<open>opps_df.groupby("stage")["amount"].sum().reset_index()\<close>\<close>

definition stage_summary :: "float_ops \<Rightarrow> frame \<Rightarrow> frame raises" where
  "stage_summary fl opps = groupby_sum fl ''stage'' ''amount'' opps"

text \<open>\<open>weighted_df["amount"] * (weighted_df["probability"] / 100)\<close>\<close>

definition weighted_amount :: "float_ops \<Rightarrow> frame \<Rightarrow> cell list raises" where
  "weighted_amount fl weighted =
     and_then (get_column ''amount'' weighted) (\<lambda>amount.
     and_then (get_column ''probability'' weighted) (\<lambda>probability.
     and_then (map_raises (div_100 fl) probability) (\<lambda>share.
     map_raises (mul_cells fl) (zip amount share))))"

definition insights_prompt :: "rendering \<Rightarrow> frame \<Rightarrow> string" where
  "insights_prompt rd summary =
     nl @ indent @ ''Analyze this sales pipeline data and provide 3 actionable insights:'' @
     nl @ indent @ to_string rd summary @
     nl @ indent @ ''Focus on opportunities, risks, and next actions.'' @
     nl @ indent"

subsection \<open>AI Assistant\<close>

text \<open>\<open>opps_df[['account_name', 'stage', 'amount', 'probability']].head(20)\<close>\<close>

definition assistant_context :: "frame \<Rightarrow> frame raises" where
  "assistant_context opps =
     and_then (select_columns [''account_name'', ''stage'', ''amount'', ''probability''] opps)
       (\<lambda>four. Inr (head 20 four))"

definition assistant_prompt :: "rendering \<Rightarrow> frame \<Rightarrow> string \<Rightarrow> string" where
  "assistant_prompt rd ctx question =
     nl @ indent @ ''Sales Data (top 20 opportunities):'' @
     nl @ indent @ to_string rd ctx @
     nl @ indent @
     nl @ indent @ ''Question: '' @ question @
     nl @ indent @
     nl @ indent @ ''Answer concisely with specific numbers and recommendations.'' @
     nl @ indent"

subsection \<open>Meeting Prep\<close>

text \<open>
  The contacts part of the brief: the conditional expression of the source renders the
  contacts only when there is one.
\<close>

definition contacts_section :: "rendering \<Rightarrow> frame \<Rightarrow> string raises" where
  "contacts_section rd account_contacts =
     (if \<not> df_empty account_contacts
      then and_then (select_columns [''contact_name'', ''email''] account_contacts)
             (\<lambda>two. Inr (to_string rd two))
      else Inr ''No contacts'')"

definition meeting_prompt ::
  "rendering \<Rightarrow> cell option \<Rightarrow> frame \<Rightarrow> frame \<Rightarrow> string raises" where
  "meeting_prompt rd account opps contacts =
     and_then (filter_eq ''account_name'' account opps) (\<lambda>account_opps.
     and_then (filter_eq ''account_name'' account contacts) (\<lambda>account_contacts.
     and_then (select_columns [''stage'', ''amount'', ''probability'', ''close_date'']
                 account_opps) (\<lambda>four.
     and_then (contacts_section rd account_contacts) (\<lambda>part.
     Inr (nl @ indent @ ''MEETING BRIEF for '' @ py_str rd account @ nl @
          nl @ indent @ ''Opportunities:'' @
          nl @ indent @ to_string rd four @ nl @
          nl @ indent @ ''Contacts:'' @
          nl @ indent @ part @ nl @
          nl @ indent @ ''Provide:'' @
          nl @ indent @ ''1. Account status summary'' @
          nl @ indent @ ''2. Key talking points'' @
          nl @ indent @ ''3. Next action recommendations'' @
          nl @ indent)))))"

subsection \<open>Outreach Generator\<close>

text \<open>
  \<open>contact_df["contact_name"].tolist() if not contact_df.empty else ["No Contacts"]\<close>:
  the options of the contact selector.
\<close>

definition contact_options :: "frame \<Rightarrow> cell list raises" where
  "contact_options contact_df =
     (if \<not> df_empty contact_df then get_column ''contact_name'' contact_df
      else Inr [Str ''No Contacts''])"

definition tones :: "string list" where
  "tones = [''Professional'', ''Friendly'', ''Executive'']"

text \<open>\<open>str.lower()\<close>, on the letters A to Z.\<close>

definition lower :: "string \<Rightarrow> string" where
  "lower s = map (\<lambda>c. if CHR ''A'' \<le> c \<and> c \<le> CHR ''Z''
                        then char_of (of_char c + (32::nat)) else c) s"

definition email_prompt ::
  "rendering \<Rightarrow> string \<Rightarrow> cell option \<Rightarrow> cell option \<Rightarrow> string \<Rightarrow> string" where
  "email_prompt rd tone contact account purpose =
     nl @ indent @ ''Write a '' @ lower tone @ '' sales email to '' @
       py_str rd contact @ '' at '' @ py_str rd account @ ''.'' @
     nl @ indent @ ''Purpose: '' @ purpose @
     nl @ indent @ ''Structure: Subject line + Greeting + Body + Call-to-action + Sign-off'' @
     nl @ indent @ ''Keep under 150 words. Conversational tone.'' @
     nl @ indent @ ''From: Your Name, Sales Manager at Your Company'' @
     nl @ indent"

section \<open>The script\<close>

text \<open>
  The frames are objects: a variable holds a reference, and \<open>df[label] = values\<close>
  changes the object every reference to it sees. The heap lists the objects; the four
  module variables of the script hold the references of the loaded tables.
\<close>

type_synonym ref = nat

record session =
  heap :: "frame list"
  accounts_df :: ref
  contacts_df :: ref
  opps_df :: ref
  tasks_df :: ref

definition frame_at :: "frame list \<Rightarrow> ref \<Rightarrow> frame" where
  "frame_at h r = (if r < length h then h ! r else \<lparr>columns = [], rows = []\<rparr>)"

text \<open>\<open>df.copy()\<close>: a new object with the same columns and rows.\<close>

definition copy :: "ref \<Rightarrow> frame list \<Rightarrow> ref \<times> frame list" where
  "copy r h = (length h, h @ [frame_at h r])"

text \<open>\<open>df[label] = values\<close>, on the object that \<open>df\<close> refers to.\<close>

definition assign_column :: "ref \<Rightarrow> string \<Rightarrow> cell list \<Rightarrow> frame list \<Rightarrow> frame list" where
  "assign_column r label vals h = h[r := set_column label vals (frame_at h r)]"

text \<open>The parameters of a run, and what the user entered and clicked before it.\<close>

record app_env =
  floats :: float_ops
  renderer :: rendering
  client :: groq_client

record inputs =
  insights_clicked :: bool
  question :: string
  ask_clicked :: bool
  brief_account :: nat
  brief_clicked :: bool
  outreach_account :: nat
  outreach_contact :: nat
  outreach_tone :: nat
  purpose :: string
  email_clicked :: bool

text \<open>
  What the Dashboard tab shows. The three metrics are the numbers before the display
  format \<open>:,.0f\<close> is applied.
\<close>

record dashboard_out =
  total_pipeline :: cell
  weighted_pipeline :: cell
  active_deals :: nat
  pipeline_by_stage :: frame
  insight :: "string option"

definition dashboard_metrics ::
  "app_env \<Rightarrow> inputs \<Rightarrow> frame \<Rightarrow> frame \<Rightarrow> dashboard_out raises" where
  "dashboard_metrics env inp opps weighted =
     and_then (column_sum (floats env) ''amount'' opps) (\<lambda>total.
     and_then (column_sum (floats env) ''weighted_amount'' weighted) (\<lambda>weighted_total.
     and_then (stage_summary (floats env) opps) (\<lambda>summary.
     and_then (if insights_clicked inp
               then and_then (ask_ai (client env) (insights_prompt (renderer env) summary))
                      (\<lambda>answer. Inr (Some answer))
               else Inr None) (\<lambda>answer.
     Inr \<lparr>total_pipeline = total, weighted_pipeline = weighted_total,
          active_deals = len opps, pipeline_by_stage = summary, insight = answer\<rparr>))))"

definition dashboard :: "app_env \<Rightarrow> inputs \<Rightarrow> session \<Rightarrow> session \<times> dashboard_out raises" where
  "dashboard env inp s =
     (case copy (opps_df s) (heap s) of
        (weighted_df, h) \<Rightarrow>
          (case weighted_amount (floats env) (frame_at h weighted_df) of
             Inl e \<Rightarrow> (s\<lparr>heap := h\<rparr>, Inl e)
           | Inr vals \<Rightarrow>
               (let h' = assign_column weighted_df ''weighted_amount'' vals h
                in (s\<lparr>heap := h'\<rparr>,
                    dashboard_metrics env inp (frame_at h' (opps_df s))
                      (frame_at h' weighted_df)))))"

text \<open>The AI Assistant tab: the answer, when the button was clicked and there is a question.\<close>

definition assistant :: "app_env \<Rightarrow> inputs \<Rightarrow> session \<Rightarrow> string option raises" where
  "assistant env inp s =
     (if ask_clicked inp \<and> question inp \<noteq> []
      then and_then (assistant_context (frame_at (heap s) (opps_df s))) (\<lambda>ctx.
           and_then (ask_ai (client env) (assistant_prompt (renderer env) ctx (question inp)))
             (\<lambda>answer. Inr (Some answer)))
      else Inr None)"

text \<open>The Meeting Prep tab: the account selected, and the brief when the button was clicked.\<close>

definition meeting_prep ::
  "app_env \<Rightarrow> inputs \<Rightarrow> session \<Rightarrow> (cell option \<times> string option) raises" where
  "meeting_prep env inp s =
     and_then (account_options (frame_at (heap s) (opps_df s))) (\<lambda>options.
     let account = selectbox options (brief_account inp)
     in if brief_clicked inp
        then and_then (meeting_prompt (renderer env) account (frame_at (heap s) (opps_df s))
                         (frame_at (heap s) (contacts_df s))) (\<lambda>prompt.
             and_then (ask_ai (client env) prompt) (\<lambda>brief. Inr (account, Some brief)))
        else Inr (account, None))"

text \<open>
  The Outreach Generator tab: the options of the contact selector, and the email when
  the button was clicked and there is a purpose.
\<close>

definition outreach ::
  "app_env \<Rightarrow> inputs \<Rightarrow> session \<Rightarrow> (cell list \<times> string option) raises" where
  "outreach env inp s =
     and_then (account_options (frame_at (heap s) (contacts_df s))) (\<lambda>options.
     let account = selectbox options (outreach_account inp)
     in and_then (filter_eq ''account_name'' account (frame_at (heap s) (contacts_df s)))
          (\<lambda>contact_df.
     and_then (contact_options contact_df) (\<lambda>contacts.
     let contact = selectbox contacts (outreach_contact inp);
         tone = selectbox tones (outreach_tone inp)
     in if email_clicked inp \<and> purpose inp \<noteq> []
        then (case tone of
                None \<Rightarrow> Inl (PyException ''AttributeError'' ''lower'')
              | Some tone \<Rightarrow>
                  and_then (ask_ai (client env)
                              (email_prompt (renderer env) tone contact account (purpose inp)))
                    (\<lambda>email. Inr (contacts, Some email)))
        else Inr (contacts, None))))"

text \<open>
  One run renders the four tabs in order; an exception ends the run. The result is the
  session after the run, and what the tabs show.
\<close>

record page =
  dashboard_tab :: dashboard_out
  assistant_tab :: "string option"
  meeting_tab :: "cell option \<times> string option"
  outreach_tab :: "cell list \<times> string option"

definition render :: "app_env \<Rightarrow> inputs \<Rightarrow> session \<Rightarrow> session \<times> page raises" where
  "render env inp s =
     (case dashboard env inp s of
        (s', shown) \<Rightarrow>
          (s', and_then shown (\<lambda>d.
               and_then (assistant env inp s') (\<lambda>a.
               and_then (meeting_prep env inp s') (\<lambda>m.
               and_then (outreach env inp s') (\<lambda>out.
               Inr \<lparr>dashboard_tab = d, assistant_tab = a, meeting_tab = m,
                    outreach_tab = out\<rparr>))))))"

text \<open>
  \<open>accounts_df, contacts_df, opps_df, tasks_df = load_data()\<close>: the four loaded
  tables are the first objects of the run.
\<close>

definition bind_tables :: "frame \<times> frame \<times> frame \<times> frame \<Rightarrow> session" where
  "bind_tables loaded =
     (case loaded of
        (accounts, contacts, opportunities, tasks) \<Rightarrow>
          \<lparr>heap = [accounts, contacts, opportunities, tasks],
           accounts_df = 0, contacts_df = 1, opps_df = 2, tasks_df = 3\<rparr>)"

text \<open>The session of the example tables, and a user who clicks every button.\<close>

definition ex_session :: session where
  "ex_session =
     bind_tables (ex_loaded_accounts, ex_loaded_contacts, ex_loaded_opportunities, ex_tasks)"

definition ex_inputs :: inputs where
  "ex_inputs =
     \<lparr>insights_clicked = True,
      question = ''Which accounts have the highest pipeline?'',
      ask_clicked = True,
      brief_account = 1,
      brief_clicked = True,
      outreach_account = 0,
      outreach_contact = 1,
      outreach_tone = 2,
      purpose = ''Schedule discovery call'',
      email_clicked = True\<rparr>"

section \<open>Startup and reruns\<close>

text \<open>
  What a run finds outside the script: the environment variables, the secret store
  (\<open>st.secrets.get\<close> raises when there is no secrets file), the CSV files, how dates
  are read, and how the remote service answers a client that holds a given key.
\<close>

record os =
  environ :: "string \<rightharpoonup> string"
  secrets_get :: "string \<Rightarrow> string option raises"
  read_csv :: "string \<Rightarrow> frame raises"
  parse_date :: date_parser
  service :: "string \<Rightarrow> groq_client"

text \<open>The handle that \<open>Groq(api_key=...)\<close> constructs.\<close>

record groq =
  api_key :: string

text \<open>
  What Streamlit keeps between the runs of the script: the two memo caches. The list of
  the keys with which a client was constructed records every call of the constructor.
\<close>

record server =
  data_cache :: "(frame \<times> frame \<times> frame \<times> frame) option"
  resource_cache :: "groq option"
  constructions :: "string list"

definition initial_server :: server where
  "initial_server = \<lparr>data_cache = None, resource_cache = None, constructions = []\<rparr>"

text \<open>
  A run ends early by \<open>st.stop()\<close>, whose exception is no \<open>Exception\<close>, or by an
  exception that nothing catches.
\<close>

datatype halt = Stop | Uncaught py_exception

type_synonym 'a halts = "halt + 'a"

text \<open>Python's truth value of a string or \<open>None\<close>.\<close>

definition truthy :: "string option \<Rightarrow> bool" where
  "truthy v \<longleftrightarrow> (case v of None \<Rightarrow> False | Some s \<Rightarrow> s \<noteq> [])"

text \<open>
  \<open>os.getenv("GROQ_API_KEY") or st.secrets.get("GROQ_API_KEY")\<close>: the right operand
  is evaluated only when the left one is \<open>None\<close> or empty.
\<close>

definition resolve_api_key :: "os \<Rightarrow> string option raises" where
  "resolve_api_key world =
     (let v = environ world ''GROQ_API_KEY''
      in if truthy v then Inr v else secrets_get world ''GROQ_API_KEY'')"

text \<open>The body of \<open>get_groq_client\<close>; \<open>st.error\<close> shows its message before \<open>st.stop\<close>.\<close>

definition get_groq_client :: "os \<Rightarrow> server \<Rightarrow> server \<times> groq halts" where
  "get_groq_client world sv =
     (case resolve_api_key world of
        Inl e \<Rightarrow> (sv, Inl (Uncaught e))
      | Inr None \<Rightarrow> (sv, Inl Stop)
      | Inr (Some k) \<Rightarrow>
          if k = [] then (sv, Inl Stop)
          else (sv\<lparr>constructions := constructions sv @ [k]\<rparr>, Inr \<lparr>api_key = k\<rparr>))"

text \<open>
  \<open>@st.cache_resource\<close> and \<open>@st.cache_data\<close> on a function without arguments: the
  body runs when the cache holds nothing, and what it returns is kept; a run of the body
  that raises keeps nothing.
\<close>

definition cache_resource ::
  "(server \<Rightarrow> server \<times> groq halts) \<Rightarrow> server \<Rightarrow> server \<times> groq halts" where
  "cache_resource body sv =
     (case resource_cache sv of
        Some handle \<Rightarrow> (sv, Inr handle)
      | None \<Rightarrow>
          (case body sv of
             (sv', Inl h) \<Rightarrow> (sv', Inl h)
           | (sv', Inr handle) \<Rightarrow> (sv'\<lparr>resource_cache := Some handle\<rparr>, Inr handle)))"

definition cache_data ::
  "(frame \<times> frame \<times> frame \<times> frame) raises \<Rightarrow> server \<Rightarrow>
   server \<times> (frame \<times> frame \<times> frame \<times> frame) raises" where
  "cache_data body sv =
     (case data_cache sv of
        Some loaded \<Rightarrow> (sv, Inr loaded)
      | None \<Rightarrow>
          (case body of
             Inl e \<Rightarrow> (sv, Inl e)
           | Inr loaded \<Rightarrow> (sv\<lparr>data_cache := Some loaded\<rparr>, Inr loaded)))"

text \<open>The four \<open>read_csv\<close> calls of \<open>load_data\<close>, followed by the rest of it.\<close>

definition read_and_load :: "os \<Rightarrow> (frame \<times> frame \<times> frame \<times> frame) raises" where
  "read_and_load world =
     and_then (read_csv world ''accounts.csv'') (\<lambda>accounts.
     and_then (read_csv world ''opportunities.csv'') (\<lambda>opportunities.
     and_then (read_csv world ''contacts.csv'') (\<lambda>contacts.
     and_then (read_csv world ''tasks.csv'') (\<lambda>tasks.
     load_data (parse_date world) accounts opportunities contacts tasks))))"

text \<open>
  One run of the script: the tables, then the client, then the four tabs. The result is
  what Streamlit keeps, and the page, or how the run ended before it.
\<close>

definition run ::
  "float_ops \<Rightarrow> rendering \<Rightarrow> os \<Rightarrow> inputs \<Rightarrow> server \<Rightarrow> server \<times> page halts" where
  "run fl rd world inp sv =
     (case cache_data (read_and_load world) sv of
        (sv1, Inl e) \<Rightarrow> (sv1, Inl (Uncaught e))
      | (sv1, Inr loaded) \<Rightarrow>
          (case cache_resource (get_groq_client world) sv1 of
             (sv2, Inl h) \<Rightarrow> (sv2, Inl h)
           | (sv2, Inr handle) \<Rightarrow>
               (sv2,
                case snd (render \<lparr>floats = fl, renderer = rd,
                                   client = service world (api_key handle)\<rparr>
                            inp (bind_tables loaded)) of
                  Inl e \<Rightarrow> Inl (Uncaught e)
                | Inr shown \<Rightarrow> Inr shown)))"

text \<open>The reruns of a session, one for each interaction: what Streamlit keeps after them.\<close>

fun reruns :: "float_ops \<Rightarrow> rendering \<Rightarrow> (os \<times> inputs) list \<Rightarrow> server \<Rightarrow> server" where
  "reruns fl rd [] sv = sv"
| "reruns fl rd ((world, inp) # rest) sv = reruns fl rd rest (fst (run fl rd world inp sv))"

text \<open>
  The state of the resource cache that the reruns keep: no client was constructed and
  none is cached, or the one that was constructed is the one cached.
\<close>

definition cached_once :: "server \<Rightarrow> bool" where
  "cached_once sv \<longleftrightarrow>
     (case resource_cache sv of
        None \<Rightarrow> constructions sv = []
      | Some handle \<Rightarrow> constructions sv = [api_key handle])"

text \<open>An example: no variable in the environment, and the key in the secret store.\<close>

definition ex_os :: os where
  "ex_os =
     \<lparr>environ = Map.empty,
      secrets_get = (\<lambda>name. Inr (if name = ''GROQ_API_KEY'' then Some ''gsk_secret'' else None)),
      read_csv = (\<lambda>name.
         if name = ''accounts.csv'' then Inr ex_accounts
         else if name = ''opportunities.csv'' then Inr ex_opportunities
         else if name = ''contacts.csv'' then Inr ex_contacts
         else if name = ''tasks.csv'' then Inr ex_tasks
         else Inl (PyException ''FileNotFoundError'' name)),
      parse_date = ex_parse,
      service = (\<lambda>key prompt. Inl (PyException ''RateLimitError'' ''rate limit''))\<rparr>"

section \<open>Properties of the AI gateway\<close>

lemma ask_ai_returns: "\<exists>s. ask_ai cl prompt = Inr s"
  by (simp add: ask_ai_def split: sum.split)

lemma ask_ai_raised:
  "cl prompt = Inl e \<Longrightarrow> ask_ai cl prompt = Inr (''AI Error: '' @ str_of_exception e)"
  by (simp add: ask_ai_def ask_ai_body_def and_then_def)

lemma ask_ai_text:
  "cl prompt = Inr r \<Longrightarrow> choices r = c # cs \<Longrightarrow>
   ask_ai cl prompt = Inr (content (message c))"
  by (simp add: ask_ai_def ask_ai_body_def first_choice_def and_then_def)

text \<open>
  Claim C2. For every prompt and every behaviour of the client, \<open>ask_ai\<close> returns a
  string and never raises: the content of the first choice when the call returns a
  response with a first choice, and \<open>"AI Error: "\<close> followed by the exception's message
  when the call raises; an exception whose message is \<open>"rate limit"\<close> gives exactly
  \<open>"AI Error: rate limit"\<close>.
\<close>

theorem ask_ai_never_raises:
  "(\<exists>s. ask_ai cl prompt = Inr s) \<and>
   (\<forall>r c cs. cl prompt = Inr r \<and> choices r = c # cs \<longrightarrow>
      ask_ai cl prompt = Inr (content (message c))) \<and>
   (\<forall>e. cl prompt = Inl e \<longrightarrow>
      ask_ai cl prompt = Inr (''AI Error: '' @ str_of_exception e)) \<and>
   (\<forall>cls. cl prompt = Inl (PyException cls ''rate limit'') \<longrightarrow>
      ask_ai cl prompt = Inr ''AI Error: rate limit'')"
proof (intro conjI allI impI)
  show "\<exists>s. ask_ai cl prompt = Inr s"
    by (rule ask_ai_returns)
next
  fix r c cs
  assume "cl prompt = Inr r \<and> choices r = c # cs"
  then show "ask_ai cl prompt = Inr (content (message c))"
    by (simp add: ask_ai_text)
next
  fix e
  assume "cl prompt = Inl e"
  then show "ask_ai cl prompt = Inr (''AI Error: '' @ str_of_exception e)"
    by (rule ask_ai_raised)
next
  fix cls
  assume "cl prompt = Inl (PyException cls ''rate limit'')"
  then show "ask_ai cl prompt = Inr ''AI Error: rate limit''"
    by (simp add: ask_ai_raised)
qed

theorem ask_ai_never_raises_witness:
  "ask_ai (\<lambda>p. Inl (PyException ''RateLimitError'' ''rate limit'')) ''hello''
     = Inr ''AI Error: rate limit'' \<and>
   ask_ai (\<lambda>p. Inr \<lparr>choices = [\<lparr>message = \<lparr>content = ''42''\<rparr>\<rparr>]\<rparr>) ''hello'' = Inr ''42''"
  using ask_ai_never_raises [of "\<lambda>p. Inl (PyException ''RateLimitError'' ''rate limit'')" "''hello''"]
    ask_ai_never_raises [of "\<lambda>p. Inr \<lparr>choices = [\<lparr>message = \<lparr>content = ''42''\<rparr>\<rparr>]\<rparr>" "''hello''"]
  by simp

section \<open>Properties of the data loader\<close>

lemma and_then_Inr_iff:
  "and_then m f = Inr y \<longleftrightarrow> (\<exists>x. m = Inr x \<and> f x = Inr y)"
  by (cases m) (simp_all add: and_then_def)

lemma label_index_None_iff: "label_index c xs = None \<longleftrightarrow> c \<notin> set xs"
  by (induction xs) auto

lemma label_index_Some_less: "label_index c xs = Some i \<Longrightarrow> i < length xs \<and> xs ! i = c"
  by (induction xs arbitrary: i) (auto split: if_splits)

lemma to_datetime_length: "to_datetime parse cs = Inr ts \<Longrightarrow> length ts = length cs"
  by (induction cs arbitrary: ts) (auto simp: and_then_Inr_iff)

lemma get_column_length: "get_column label df = Inr vs \<Longrightarrow> length vs = length (rows df)"
  by (auto simp: get_column_def split: option.splits)

lemma rows_rename: "rows (rename mapping df) = rows df"
  by (simp add: rename_def)

lemma length_rows_set_column:
  "length vals = length (rows df) \<Longrightarrow> length (rows (set_column label vals df)) = length (rows df)"
  by (simp add: set_column_def split: option.splits)

lemma merge_row_nonempty: "merge_row i j w rrows l \<noteq> []"
  by (simp add: merge_row_def split: list.splits)

lemma filter_key_distinct:
  "distinct (map f rs) \<Longrightarrow> length (filter (\<lambda>r. f r = k) rs) \<le> 1"
proof (induction rs)
  case Nil
  show ?case by simp
next
  case (Cons a rs)
  show ?case
  proof (cases "f a = k")
    case True
    with Cons.prems have "k \<notin> f ` set rs" by auto
    then have "filter (\<lambda>r. f r = k) rs = []"
      by (force simp: filter_empty_conv)
    with True show ?thesis by simp
  next
    case False
    with Cons show ?thesis by simp
  qed
qed

lemma length_merge_row_distinct:
  assumes "distinct (map (\<lambda>r. cell_at r j) rrows)"
  shows "length (merge_row i j w rrows l) = 1"
proof -
  have "length (filter (\<lambda>r. cell_at r j = cell_at l i) rrows) \<le> 1"
    using assms by (rule filter_key_distinct)
  then show ?thesis
    by (cases "filter (\<lambda>r. cell_at r j = cell_at l i) rrows") (auto simp: merge_row_def)
qed

lemma merge_row_unmatched:
  "cell_at l i \<notin> (\<lambda>r. cell_at r j) ` set rrows \<Longrightarrow> merge_row i j w rrows l = [l @ replicate w NaN]"
proof -
  assume "cell_at l i \<notin> (\<lambda>r. cell_at r j) ` set rrows"
  then have "filter (\<lambda>r. cell_at r j = cell_at l i) rrows = []"
    by (force simp: filter_empty_conv)
  then show ?thesis by (simp add: merge_row_def)
qed

lemma length_concat_merge_ge:
  "length ls \<le> length (concat (map (merge_row i j w rrows) ls))"
proof (induction ls)
  case Nil
  show ?case by simp
next
  case (Cons l ls)
  have "1 \<le> length (merge_row i j w rrows l)"
    using merge_row_nonempty [of i j w rrows l] by (cases "merge_row i j w rrows l") auto
  with Cons show ?case by simp
qed

lemma length_concat_merge_distinct:
  "distinct (map (\<lambda>r. cell_at r j) rrows) \<Longrightarrow>
   length (concat (map (merge_row i j w rrows) ls)) = length ls"
  by (induction ls) (simp_all add: length_merge_row_distinct)

lemma merge_left_Inr:
  assumes "merge_left key left right = Inr joined"
  obtains i j where "label_index key (columns left) = Some i"
    "label_index key (columns right) = Some j"
    "rows joined = concat (map (merge_row i j (length (columns right) - 1) (rows right)) (rows left))"
  using assms by (auto simp: merge_left_def split: option.splits)

lemma select_account_names:
  assumes "select_columns [''account_id'', ''account_name''] accounts = Inr names"
  shows "columns names = [''account_id'', ''account_name''] \<and>
         (\<exists>i. label_index ''account_id'' (columns accounts) = Some i \<and>
           map (\<lambda>r. cell_at r 0) (rows names) = map (\<lambda>r. cell_at r i) (rows accounts))"
proof -
  from assms have in_cols: "''account_id'' \<in> set (columns accounts)"
    and n: "names = \<lparr>columns = [''account_id'', ''account_name''],
      rows = map (\<lambda>r. map (\<lambda>c. case label_index c (columns accounts) of
                 None \<Rightarrow> NaN | Some i \<Rightarrow> cell_at r i) [''account_id'', ''account_name''])
               (rows accounts)\<rparr>"
    by (auto simp: select_columns_def split: list.splits if_splits)
  from in_cols obtain i where i: "label_index ''account_id'' (columns accounts) = Some i"
    using label_index_None_iff [of "''account_id''" "columns accounts"] by (cases "label_index ''account_id'' (columns accounts)") auto
  show ?thesis using n i by (simp add: cell_at_def comp_def)
qed

lemma merge_account_name_rows:
  assumes "merge_account_name child accounts = Inr joined"
    and "get_column ''account_id'' accounts = Inr ids"
  shows "\<exists>i rrows. label_index ''account_id'' (columns child) = Some i \<and>
           map (\<lambda>r. cell_at r 0) rrows = ids \<and>
           rows joined = concat (map (merge_row i 0 1 rrows) (rows child))"
proof -
  from assms(1) obtain names where s: "select_columns [''account_id'', ''account_name''] accounts = Inr names"
    and m: "merge_left ''account_id'' child names = Inr joined"
    by (auto simp: merge_account_name_def and_then_Inr_iff)
  from select_account_names [OF s] obtain k where
    cn: "columns names = [''account_id'', ''account_name'']"
    and k: "label_index ''account_id'' (columns accounts) = Some k"
    and ks: "map (\<lambda>r. cell_at r 0) (rows names) = map (\<lambda>r. cell_at r k) (rows accounts)"
    by blast
  from assms(2) k have ids: "ids = map (\<lambda>r. cell_at r k) (rows accounts)"
    by (simp add: get_column_def)
  from m obtain i j where i: "label_index ''account_id'' (columns child) = Some i"
    and j: "label_index ''account_id'' (columns names) = Some j"
    and r: "rows joined = concat (map (merge_row i j (length (columns names) - 1) (rows names)) (rows child))"
    by (rule merge_left_Inr)
  from j cn have "j = 0" by simp
  with r cn i ks ids show ?thesis by auto
qed

lemma merge_account_name_unmatched:
  assumes "merge_account_name child accounts = Inr joined"
    and "get_column ''account_id'' accounts = Inr ids"
    and "l \<in> set (rows child)"
    and "label_index ''account_id'' (columns child) = Some i"
    and "cell_at l i \<notin> set ids"
  shows "l @ [NaN] \<in> set (rows joined)"
proof -
  from merge_account_name_rows [OF assms(1,2)] assms(4) obtain rrows where
    ids: "map (\<lambda>r. cell_at r 0) rrows = ids"
    and r: "rows joined = concat (map (merge_row i 0 1 rrows) (rows child))"
    by auto
  from ids assms(5) have "cell_at l i \<notin> (\<lambda>r. cell_at r 0) ` set rrows" by auto
  then have "merge_row i 0 1 rrows l = [l @ replicate 1 NaN]"
    by (rule merge_row_unmatched)
  then have "l @ [NaN] \<in> set (merge_row i 0 1 rrows l)" by simp
  with r assms(3) show ?thesis by auto
qed

lemma merge_account_name_length:
  assumes "merge_account_name child accounts = Inr joined"
    and "get_column ''account_id'' accounts = Inr ids"
  shows "length (rows child) \<le> length (rows joined) \<and>
         (distinct ids \<longrightarrow> length (rows joined) = length (rows child))"
proof -
  from merge_account_name_rows [OF assms] obtain i rrows where
    ids: "map (\<lambda>r. cell_at r 0) rrows = ids"
    and r: "rows joined = concat (map (merge_row i 0 1 rrows) (rows child))"
    by auto
  show ?thesis
    using r ids length_concat_merge_ge [of "rows child" i 0 1 rrows]
      length_concat_merge_distinct [of 0 rrows i 1 "rows child"]
    by auto
qed

lemma standardize_opportunities_join:
  assumes "standardize_opportunities parse accounts opportunities = Inr joined"
  shows "\<exists>child. merge_account_name child accounts = Inr joined \<and>
           length (rows child) = length (rows opportunities)"
proof -
  let ?r = "rename
            [(''ID'', ''opportunity_id''), (''ACCOUNT_ID'', ''account_id''),
             (''AMOUNT'', ''amount''), (''PROBABILITY'', ''probability''),
             (''STAGE_NAME'', ''stage''), (''CLOSE_DATE'', ''close_date'')] opportunities"
  from assms obtain raw dates where
    g: "get_column ''close_date'' ?r = Inr raw"
    and d: "to_datetime parse raw = Inr dates"
    and m: "merge_account_name (set_column ''close_date'' dates ?r) accounts = Inr joined"
    by (auto simp: standardize_opportunities_def Let_def and_then_Inr_iff)
  have "length dates = length (rows ?r)"
    using to_datetime_length [OF d] get_column_length [OF g] by simp
  then have "length (rows (set_column ''close_date'' dates ?r)) = length (rows opportunities)"
    by (simp add: length_rows_set_column rows_rename)
  with m show ?thesis by blast
qed

lemma load_data_Inr:
  assumes "load_data parse accounts opportunities contacts tasks
             = Inr (accounts', contacts', opportunities', tasks')"
  shows "accounts' = standardize_accounts accounts \<and>
         standardize_opportunities parse accounts' opportunities = Inr opportunities' \<and>
         standardize_contacts accounts' contacts = Inr contacts' \<and>
         standardize_tasks parse accounts' tasks = Inr tasks'"
  using assms by (auto simp: load_data_def Let_def and_then_Inr_iff)

text \<open>
  Claim C4, as amended. The join of \<open>load_data\<close> never drops a row of the child
  table: the joined opportunity table and the joined contact table have at least as many
  rows as before the join, and exactly as many when the account ids of the accounts table
  are distinct. A child row whose account id is no account's id is kept, once, with a
  missing account name.
\<close>

theorem left_join_keeps_rows:
  assumes "load_data parse accounts opportunities contacts tasks
             = Inr (accounts', contacts', opportunities', tasks')"
    and "get_column ''account_id'' accounts' = Inr ids"
  shows "length (rows opportunities) \<le> length (rows opportunities') \<and>
         length (rows contacts) \<le> length (rows contacts') \<and>
         (distinct ids \<longrightarrow>
            length (rows opportunities') = length (rows opportunities) \<and>
            length (rows contacts') = length (rows contacts)) \<and>
         (\<forall>child joined l i.
            merge_account_name child accounts' = Inr joined \<and> l \<in> set (rows child) \<and>
            label_index ''account_id'' (columns child) = Some i \<and> cell_at l i \<notin> set ids
            \<longrightarrow> l @ [NaN] \<in> set (rows joined))"
proof -
  from load_data_Inr [OF assms(1)] have
    o: "standardize_opportunities parse accounts' opportunities = Inr opportunities'"
    and c: "standardize_contacts accounts' contacts = Inr contacts'"
    by blast+
  from standardize_opportunities_join [OF o] obtain child where
    m: "merge_account_name child accounts' = Inr opportunities'"
    and n: "length (rows child) = length (rows opportunities)"
    by blast
  have opps: "length (rows opportunities) \<le> length (rows opportunities') \<and>
      (distinct ids \<longrightarrow> length (rows opportunities') = length (rows opportunities))"
    using merge_account_name_length [OF m assms(2)] n by simp
  have cons: "length (rows contacts) \<le> length (rows contacts') \<and>
      (distinct ids \<longrightarrow> length (rows contacts') = length (rows contacts))"
    using merge_account_name_length [OF c [unfolded standardize_contacts_def] assms(2)]
    by (simp add: rows_rename)
  have un: "\<forall>child joined l i.
            merge_account_name child accounts' = Inr joined \<and> l \<in> set (rows child) \<and>
            label_index ''account_id'' (columns child) = Some i \<and> cell_at l i \<notin> set ids
            \<longrightarrow> l @ [NaN] \<in> set (rows joined)"
    using merge_account_name_unmatched [OF _ assms(2)] by blast
  from opps cons un show ?thesis by blast
qed

lemmas ex_defs = ex_parse_def ex_accounts_def ex_opportunities_def ex_contacts_def ex_tasks_def
  ex_accounts_twice_def ex_one_opportunity_def ex_no_contacts_def ex_tasks_lower_def
  ex_tasks_dated_def ex_loaded_accounts_def ex_loaded_opportunities_def ex_loaded_contacts_def

lemmas frame_defs = load_data_def standardize_accounts_def standardize_opportunities_def
  standardize_contacts_def standardize_tasks_def rename_def and_then_def get_column_def
  cell_at_def set_column_def merge_account_name_def select_columns_def merge_left_def
  merge_row_def drop_at_def

lemma ex_load:
  "load_data ex_parse ex_accounts ex_opportunities ex_contacts ex_tasks
     = Inr (ex_loaded_accounts, ex_loaded_contacts, ex_loaded_opportunities, ex_tasks)"
  by (simp add: ex_defs frame_defs)

lemma ex_account_ids: "get_column ''account_id'' ex_loaded_accounts = Inr [Num 1, Num 2, Num 3]"
  by (simp add: ex_defs frame_defs)

text \<open>The example tables load, and the account ids 1, 2, 3 are distinct.\<close>

theorem left_join_keeps_rows_witness:
  "load_data ex_parse ex_accounts ex_opportunities ex_contacts ex_tasks
     = Inr (ex_loaded_accounts, ex_loaded_contacts, ex_loaded_opportunities, ex_tasks) \<and>
   get_column ''account_id'' ex_loaded_accounts = Inr [Num 1, Num 2, Num 3] \<and>
   distinct [Num 1, Num 2, Num 3] \<and>
   length (rows ex_loaded_opportunities) = length (rows ex_opportunities) \<and>
   length (rows ex_loaded_contacts) = length (rows ex_contacts) \<and>
   [Num 15, Num 4, Num 5000, Num 50, Str ''Negotiation'', Ts 1709164800000000000] @ [NaN]
     \<in> set (rows ex_loaded_opportunities)"
  using left_join_keeps_rows [OF ex_load ex_account_ids] ex_load ex_account_ids
  by (simp add: ex_loaded_opportunities_def)

text \<open>
  Claim C4 as stated fails: with the account id 1 on two rows of the accounts table, the
  one opportunity of that account is on two rows of the joined table.
\<close>

theorem left_join_duplicates_rows:
  "load_data ex_parse ex_accounts_twice ex_one_opportunity ex_no_contacts ex_tasks =
     Inr (\<lparr>columns = [''account_id'', ''account_name''],
            rows = [[Num 1, Str ''Acme''], [Num 1, Str ''Acme GmbH'']]\<rparr>,
          \<lparr>columns = [''contact_id'', ''account_id'', ''contact_name'', ''email'',
                      ''account_name''],
            rows = []\<rparr>,
          \<lparr>columns = [''opportunity_id'', ''account_id'', ''amount'', ''probability'',
                      ''stage'', ''close_date'', ''account_name''],
            rows = [[Num 11, Num 1, Num 1000, Num 50, Str ''Prospecting'',
                     Ts 1706659200000000000, Str ''Acme''],
                    [Num 11, Num 1, Num 1000, Num 50, Str ''Prospecting'',
                     Ts 1706659200000000000, Str ''Acme GmbH'']]\<rparr>,
          ex_tasks) \<and>
   length (rows ex_one_opportunity) = 1"
  by (simp add: ex_defs frame_defs)

lemma columns_merge_account_name:
  assumes "merge_account_name child accounts = Inr joined"
  shows "columns joined =
     map (\<lambda>c. if c = ''account_name'' then ''account_name_x'' else c) (columns child) @
     [if ''account_name'' \<in> set (columns child) then ''account_name_y'' else ''account_name'']"
proof -
  from assms obtain names where s: "select_columns [''account_id'', ''account_name''] accounts = Inr names"
    and m: "merge_left ''account_id'' child names = Inr joined"
    by (auto simp: merge_account_name_def and_then_Inr_iff)
  from select_account_names [OF s] have cn: "columns names = [''account_id'', ''account_name'']"
    by blast
  from m cn show ?thesis
    by (auto simp: merge_left_def drop_at_def split: option.splits)
qed

lemma standardize_tasks_unchanged:
  assumes "''ACCOUNT_ID'' \<notin> set (columns tasks)" "''account_id'' \<notin> set (columns tasks)"
    "''ACTIVITY_DATE'' \<notin> set (columns tasks)"
  shows "standardize_tasks parse accounts tasks = Inr tasks"
  using assms by (simp add: standardize_tasks_def and_then_def)

lemma columns_set_column:
  "columns (set_column label vals df) =
     (if label \<in> set (columns df) then columns df else columns df @ [label])"
  using label_index_None_iff [of label "columns df"]
  by (cases "label_index label (columns df)") (auto simp: set_column_def)

lemma standardize_tasks_no_join:
  assumes "''ACCOUNT_ID'' \<notin> set (columns tasks)" "''account_id'' \<notin> set (columns tasks)"
    "standardize_tasks parse accounts tasks = Inr t"
  shows "columns t =
     (if ''ACTIVITY_DATE'' \<in> set (columns tasks) \<and> ''activity_date'' \<notin> set (columns tasks)
      then columns tasks @ [''activity_date''] else columns tasks)"
proof (cases "''ACTIVITY_DATE'' \<in> set (columns tasks)")
  case False
  with assms have "t = tasks"
    by (simp add: standardize_tasks_def and_then_def)
  with False show ?thesis by simp
next
  case True
  with assms(1,3) obtain d where
    d: "and_then (get_column ''ACTIVITY_DATE'' tasks) (\<lambda>raw.
          and_then (to_datetime parse raw) (\<lambda>dates.
          Inr (set_column ''activity_date'' dates tasks))) = Inr d"
    and t: "(if ''account_id'' \<in> set (columns d)
             then merge_account_name d accounts else Inr d) = Inr t"
    by (simp add: standardize_tasks_def and_then_Inr_iff) blast
  from d obtain dates where "d = set_column ''activity_date'' dates tasks"
    by (auto simp: and_then_Inr_iff)
  then have cd: "columns d = (if ''activity_date'' \<in> set (columns tasks)
      then columns tasks else columns tasks @ [''activity_date''])"
    by (simp add: columns_set_column)
  with assms(2) have "''account_id'' \<notin> set (columns d)"
    by (simp split: if_splits)
  with t have "t = d" by simp
  with cd True show ?thesis by simp
qed

lemma mem_map_replace:
  "x \<noteq> a \<Longrightarrow> x \<noteq> b \<Longrightarrow>
   x \<in> set (map (\<lambda>c. if c = a then b else c) xs) \<longleftrightarrow> x \<in> set xs"
  by (induction xs) auto

lemma columns_rename_single:
  "columns (rename [(a, b)] df) = map (\<lambda>c. if c = a then b else c) (columns df)"
  by (simp add: rename_def)

lemma standardize_tasks_no_date:
  assumes "''ACTIVITY_DATE'' \<notin> set (columns tasks)"
    "standardize_tasks parse accounts tasks = Inr t"
  shows "''activity_date'' \<in> set (columns t) \<longleftrightarrow> ''activity_date'' \<in> set (columns tasks)"
proof -
  define t0 where "t0 = (if ''ACCOUNT_ID'' \<in> set (columns tasks)
            then rename [(''ACCOUNT_ID'', ''account_id'')] tasks else tasks)"
  have c: "''activity_date'' \<in> set (columns t0) \<longleftrightarrow> ''activity_date'' \<in> set (columns tasks)"
    unfolding t0_def by (simp add: columns_rename_single mem_map_replace)
  have d: "''ACTIVITY_DATE'' \<notin> set (columns t0)"
    using assms(1) unfolding t0_def by (simp add: columns_rename_single mem_map_replace)
  have "standardize_tasks parse accounts tasks =
      and_then (if ''ACTIVITY_DATE'' \<in> set (columns t0)
            then and_then (get_column ''ACTIVITY_DATE'' t0) (\<lambda>raw.
                 and_then (to_datetime parse raw) (\<lambda>dates.
                 Inr (set_column ''activity_date'' dates t0)))
            else Inr t0)
           (\<lambda>tasks.
              if ''account_id'' \<in> set (columns tasks)
              then merge_account_name tasks accounts else Inr tasks)"
    unfolding standardize_tasks_def t0_def Let_def ..
  with d have "standardize_tasks parse accounts tasks =
      (if ''account_id'' \<in> set (columns t0) then merge_account_name t0 accounts else Inr t0)"
    by (simp add: and_then_def)
  with assms(2) have "t = t0 \<or> merge_account_name t0 accounts = Inr t"
    by (simp split: if_splits)
  then show ?thesis
  proof
    assume "t = t0"
    with c show ?thesis by simp
  next
    assume "merge_account_name t0 accounts = Inr t"
    from columns_merge_account_name [OF this] have
      "columns t = map (\<lambda>c. if c = ''account_name'' then ''account_name_x'' else c) (columns t0) @
     [if ''account_name'' \<in> set (columns t0) then ''account_name_y'' else ''account_name'']" .
    then have "''activity_date'' \<in> set (columns t) \<longleftrightarrow> ''activity_date'' \<in> set (columns t0)"
      by (simp add: mem_map_replace)
    with c show ?thesis by simp
  qed
qed

lemma load_data_other_tasks:
  assumes "load_data parse accounts opportunities contacts tasks0 = Inr (a, c, opps, t0)"
    and "standardize_tasks parse (standardize_accounts accounts) tasks = Inr t"
  shows "load_data parse accounts opportunities contacts tasks = Inr (a, c, opps, t)"
  using assms by (auto simp: load_data_def Let_def and_then_Inr_iff)

text \<open>
  Claim C8, as amended. When the tasks table has neither the raw account column
  \<open>ACCOUNT_ID\<close> nor a column already named \<open>account_id\<close>, the rename and the
  join are skipped: no account name is added. When it has no \<open>ACTIVITY_DATE\<close> column,
  no \<open>activity_date\<close> column is added. When all three are absent the tasks table is
  returned as it was read and the step raises nothing, so that \<open>load_data\<close> returns
  whenever the other three tables load.
\<close>

theorem tasks_optional_columns:
  "(''ACCOUNT_ID'' \<notin> set (columns tasks) \<and> ''account_id'' \<notin> set (columns tasks) \<and>
    ''ACTIVITY_DATE'' \<notin> set (columns tasks) \<longrightarrow>
      standardize_tasks parse accounts tasks = Inr tasks) \<and>
   (\<forall>t. ''ACCOUNT_ID'' \<notin> set (columns tasks) \<and> ''account_id'' \<notin> set (columns tasks) \<and>
      standardize_tasks parse accounts tasks = Inr t \<longrightarrow>
      columns t =
        (if ''ACTIVITY_DATE'' \<in> set (columns tasks) \<and> ''activity_date'' \<notin> set (columns tasks)
         then columns tasks @ [''activity_date''] else columns tasks)) \<and>
   (\<forall>t. ''ACTIVITY_DATE'' \<notin> set (columns tasks) \<and>
      standardize_tasks parse accounts tasks = Inr t \<longrightarrow>
      (''activity_date'' \<in> set (columns t) \<longleftrightarrow> ''activity_date'' \<in> set (columns tasks))) \<and>
   (\<forall>opportunities contacts tasks0 a c opps t0.
      ''ACCOUNT_ID'' \<notin> set (columns tasks) \<and> ''account_id'' \<notin> set (columns tasks) \<and>
      ''ACTIVITY_DATE'' \<notin> set (columns tasks) \<and>
      load_data parse accounts opportunities contacts tasks0 = Inr (a, c, opps, t0) \<longrightarrow>
      load_data parse accounts opportunities contacts tasks = Inr (a, c, opps, tasks))"
proof (intro conjI allI impI)
  assume "''ACCOUNT_ID'' \<notin> set (columns tasks) \<and> ''account_id'' \<notin> set (columns tasks) \<and>
    ''ACTIVITY_DATE'' \<notin> set (columns tasks)"
  then show "standardize_tasks parse accounts tasks = Inr tasks"
    by (simp add: standardize_tasks_unchanged)
next
  fix t
  assume "''ACCOUNT_ID'' \<notin> set (columns tasks) \<and> ''account_id'' \<notin> set (columns tasks) \<and>
      standardize_tasks parse accounts tasks = Inr t"
  then show "columns t =
        (if ''ACTIVITY_DATE'' \<in> set (columns tasks) \<and> ''activity_date'' \<notin> set (columns tasks)
         then columns tasks @ [''activity_date''] else columns tasks)"
    using standardize_tasks_no_join [of tasks parse accounts t] by blast
next
  fix t
  assume "''ACTIVITY_DATE'' \<notin> set (columns tasks) \<and>
      standardize_tasks parse accounts tasks = Inr t"
  then show "''activity_date'' \<in> set (columns t) \<longleftrightarrow> ''activity_date'' \<in> set (columns tasks)"
    using standardize_tasks_no_date [of tasks parse accounts t] by blast
next
  fix opportunities contacts tasks0 a c opps t0
  assume h: "''ACCOUNT_ID'' \<notin> set (columns tasks) \<and> ''account_id'' \<notin> set (columns tasks) \<and>
      ''ACTIVITY_DATE'' \<notin> set (columns tasks) \<and>
      load_data parse accounts opportunities contacts tasks0 = Inr (a, c, opps, t0)"
  then have "standardize_tasks parse (standardize_accounts accounts) tasks = Inr tasks"
    by (simp add: standardize_tasks_unchanged)
  with h show "load_data parse accounts opportunities contacts tasks = Inr (a, c, opps, tasks)"
    using load_data_other_tasks by blast
qed

theorem tasks_optional_columns_witness:
  "''ACCOUNT_ID'' \<notin> set (columns ex_tasks) \<and> ''account_id'' \<notin> set (columns ex_tasks) \<and>
   ''ACTIVITY_DATE'' \<notin> set (columns ex_tasks) \<and>
   standardize_tasks ex_parse ex_accounts ex_tasks = Inr ex_tasks \<and>
   ''ACCOUNT_ID'' \<notin> set (columns ex_tasks_dated) \<and>
   ''account_id'' \<notin> set (columns ex_tasks_dated) \<and>
   standardize_tasks ex_parse ex_accounts ex_tasks_dated =
     Inr \<lparr>columns = [''SUBJECT'', ''ACTIVITY_DATE'', ''activity_date''],
          rows = [[Str ''Call'', Str ''2024-01-31'', Ts 1706659200000000000]]\<rparr> \<and>
   load_data ex_parse ex_accounts ex_opportunities ex_contacts ex_tasks
     = Inr (ex_loaded_accounts, ex_loaded_contacts, ex_loaded_opportunities, ex_tasks)"
proof -
  have a: "''ACCOUNT_ID'' \<notin> set (columns ex_tasks) \<and> ''account_id'' \<notin> set (columns ex_tasks) \<and>
   ''ACTIVITY_DATE'' \<notin> set (columns ex_tasks)"
    by (simp add: ex_tasks_def)
  have b: "''ACCOUNT_ID'' \<notin> set (columns ex_tasks_dated) \<and>
    ''account_id'' \<notin> set (columns ex_tasks_dated)"
    by (simp add: ex_tasks_dated_def)
  have c: "standardize_tasks ex_parse ex_accounts ex_tasks_dated =
     Inr \<lparr>columns = [''SUBJECT'', ''ACTIVITY_DATE'', ''activity_date''],
          rows = [[Str ''Call'', Str ''2024-01-31'', Ts 1706659200000000000]]\<rparr>"
    by (simp add: ex_defs frame_defs)
  have d: "load_data ex_parse ex_accounts ex_opportunities ex_contacts ex_tasks_dated
     = Inr (ex_loaded_accounts, ex_loaded_contacts, ex_loaded_opportunities,
        \<lparr>columns = [''SUBJECT'', ''ACTIVITY_DATE'', ''activity_date''],
          rows = [[Str ''Call'', Str ''2024-01-31'', Ts 1706659200000000000]]\<rparr>)"
    by (simp add: ex_defs frame_defs)
  from tasks_optional_columns [of ex_tasks ex_parse ex_accounts] a b c d
  show ?thesis by blast
qed

text \<open>
  Claim C8 as stated fails: this tasks table has no \<open>ACCOUNT_ID\<close> column, and the
  join is not skipped, because the column \<open>account_id\<close> is there already.
\<close>

theorem tasks_lower_case_account_id_joined:
  "''ACCOUNT_ID'' \<notin> set (columns ex_tasks_lower) \<and>
   load_data ex_parse ex_accounts ex_opportunities ex_contacts ex_tasks_lower =
     Inr (ex_loaded_accounts, ex_loaded_contacts, ex_loaded_opportunities,
          \<lparr>columns = [''account_id'', ''SUBJECT'', ''account_name''],
            rows = [[Num 1, Str ''Call'', Str ''Acme''], [Num 4, Str ''Email'', NaN]]\<rparr>)"
  by (simp add: ex_defs frame_defs)

section \<open>Properties of the dashboard\<close>

lemma set_unique: "set (unique vals) = set vals"
  by (induction vals rule: unique.induct) auto

















section \<open>Properties of the AI Assistant\<close>

lemma select_columns_Inr:
  assumes "set labels \<subseteq> set (columns df)"
  shows "select_columns labels df =
     Inr \<lparr>columns = labels,
          rows = map (\<lambda>r. map (\<lambda>c. case label_index c (columns df) of
                                        None \<Rightarrow> NaN | Some i \<Rightarrow> cell_at r i) labels)
                   (rows df)\<rparr>"
proof -
  from assms have "filter (\<lambda>c. c \<notin> set (columns df)) labels = []"
    by (auto simp: filter_empty_conv)
  then show ?thesis by (simp add: select_columns_def)
qed

lemma label_index_in:
  "c \<in> set cs \<Longrightarrow> \<exists>i. label_index c cs = Some i"
  using label_index_None_iff [of c cs] by (cases "label_index c cs") auto

lemma label_index_first: "label_index c (c # cs) = Some 0"
  by simp

lemma get_column_select:
  assumes "set labels \<subseteq> set (columns df)" and "c \<in> set labels"
    and "select_columns labels df = Inr sub"
  shows "get_column c sub = get_column c df"
proof -
  from assms(1,2) obtain i where i: "label_index c (columns df) = Some i"
    using label_index_in by blast
  from assms(2) obtain j where j: "label_index c labels = Some j"
    using label_index_in by blast
  from label_index_Some_less [OF j] have jl: "j < length labels" and jc: "labels ! j = c"
    by simp_all
  from assms(3) select_columns_Inr [OF assms(1)] have sub: "sub =
     \<lparr>columns = labels,
          rows = map (\<lambda>r. map (\<lambda>c. case label_index c (columns df) of
                                        None \<Rightarrow> NaN | Some i \<Rightarrow> cell_at r i) labels)
                   (rows df)\<rparr>"
    by simp
  show ?thesis
    using i j jl jc by (simp add: sub get_column_def cell_at_def comp_def)
qed

lemma get_column_head:
  "get_column c (head n df) = map_sum id (take n) (get_column c df)"
  by (simp add: get_column_def head_def take_map split: option.splits)


lemma ask_ai_total: "\<exists>answer. ask_ai cl prompt = Inr answer"
  by (simp add: ask_ai_def split: sum.split)

text \<open>
  Claim C5. When the button is clicked with a question that is not empty, and the
  opportunity table has the four columns, the context is the sub-frame of exactly the
  columns account name, stage, amount and probability, each holding the first 20 values
  of its column in table order (all of them when there are fewer); the prompt holds the
  rendered context and, after it, the question as it was typed; and the tab shows what
  \<open>ask_ai\<close> answers to that prompt.
\<close>

theorem assistant_prompt_embeds_context:
  assumes "ask_clicked inp" and "question inp \<noteq> []"
    and "opps = frame_at (heap s) (opps_df s)"
    and "set [''account_name'', ''stage'', ''amount'', ''probability''] \<subseteq> set (columns opps)"
  shows "\<exists>ctx answer.
           assistant_context opps = Inr ctx \<and>
           columns ctx = [''account_name'', ''stage'', ''amount'', ''probability''] \<and>
           len ctx = min 20 (len opps) \<and>
           (\<forall>c \<in> set [''account_name'', ''stage'', ''amount'', ''probability''].
              get_column c ctx = map_sum id (take 20) (get_column c opps)) \<and>
           assistant_prompt (renderer env) ctx (question inp) =
             nl @ indent @ ''Sales Data (top 20 opportunities):'' @
             nl @ indent @ to_string (renderer env) ctx @
             nl @ indent @
             nl @ indent @ ''Question: '' @ question inp @
             nl @ indent @
             nl @ indent @ ''Answer concisely with specific numbers and recommendations.'' @
             nl @ indent \<and>
           ask_ai (client env) (assistant_prompt (renderer env) ctx (question inp)) = Inr answer \<and>
           assistant env inp s = Inr (Some answer)"
proof -
  let ?four = "[''account_name'', ''stage'', ''amount'', ''probability'']"
  obtain sub where sub: "select_columns ?four opps = Inr sub"
    using select_columns_Inr [OF assms(4)] by blast
  let ?ctx = "head 20 sub"
  have ctx: "assistant_context opps = Inr ?ctx"
    by (simp add: assistant_context_def sub and_then_def)
  have cols: "columns ?ctx = ?four"
    using sub select_columns_Inr [OF assms(4)] by (auto simp: head_def)
  have "length (rows sub) = length (rows opps)"
    using sub select_columns_Inr [OF assms(4)] by auto
  then have n: "len ?ctx = min 20 (len opps)"
    by (simp add: len_def head_def min_def)
  have g: "get_column c ?ctx = map_sum id (take 20) (get_column c opps)" if "c \<in> set ?four" for c
    using get_column_select [OF assms(4) that sub] by (simp add: get_column_head)
  obtain answer where a: "ask_ai (client env) (assistant_prompt (renderer env) ?ctx (question inp))
      = Inr answer"
    using ask_ai_total by blast
  have v: "assistant env inp s = Inr (Some answer)"
    using assms(1,2) ctx a by (simp add: assistant_def assms(3) [symmetric] and_then_def)
  have p: "assistant_prompt (renderer env) ?ctx (question inp) =
             nl @ indent @ ''Sales Data (top 20 opportunities):'' @
             nl @ indent @ to_string (renderer env) ?ctx @
             nl @ indent @
             nl @ indent @ ''Question: '' @ question inp @
             nl @ indent @
             nl @ indent @ ''Answer concisely with specific numbers and recommendations.'' @
             nl @ indent"
    by (simp add: assistant_prompt_def)
  from ctx cols n g a v p show ?thesis by blast
qed


lemmas session_defs = ex_session_def bind_tables_def frame_at_def ex_inputs_def

theorem assistant_prompt_embeds_context_witness:
  "\<forall>env. ask_clicked ex_inputs \<and> question ex_inputs \<noteq> [] \<and>
     set [''account_name'', ''stage'', ''amount'', ''probability'']
       \<subseteq> set (columns (frame_at (heap ex_session) (opps_df ex_session))) \<and>
     assistant_context (frame_at (heap ex_session) (opps_df ex_session)) =
       Inr \<lparr>columns = [''account_name'', ''stage'', ''amount'', ''probability''],
            rows = [[Str ''Acme'', Str ''Prospecting'', Num 1000, Num 50],
                    [Str ''Globex'', Str ''Negotiation'', Num 2000, Num 50],
                    [Str ''Initech'', Str ''Prospecting'', Num 3000, Num 50],
                    [Str ''Acme'', Str ''Closed Won'', Num 4000, Num 50],
                    [NaN, Str ''Negotiation'', Num 5000, Num 50]]\<rparr> \<and>
     (\<exists>answer. assistant env ex_inputs ex_session = Inr (Some answer))"
proof
  fix env
  have a: "ask_clicked ex_inputs" and b: "question ex_inputs \<noteq> []"
    by (simp_all add: ex_inputs_def)
  have c: "set [''account_name'', ''stage'', ''amount'', ''probability'']
       \<subseteq> set (columns (frame_at (heap ex_session) (opps_df ex_session)))"
    by (simp add: session_defs ex_loaded_opportunities_def)
  have d: "assistant_context (frame_at (heap ex_session) (opps_df ex_session)) =
       Inr \<lparr>columns = [''account_name'', ''stage'', ''amount'', ''probability''],
            rows = [[Str ''Acme'', Str ''Prospecting'', Num 1000, Num 50],
                    [Str ''Globex'', Str ''Negotiation'', Num 2000, Num 50],
                    [Str ''Initech'', Str ''Prospecting'', Num 3000, Num 50],
                    [Str ''Acme'', Str ''Closed Won'', Num 4000, Num 50],
                    [NaN, Str ''Negotiation'', Num 5000, Num 50]]\<rparr>"
    by (simp add: session_defs ex_loaded_opportunities_def assistant_context_def
        select_columns_def head_def cell_at_def and_then_def)
  from assistant_prompt_embeds_context [OF a b refl c, of env]
  have "\<exists>answer. assistant env ex_inputs ex_session = Inr (Some answer)"
    by blast
  with a b c d
  show "ask_clicked ex_inputs \<and> question ex_inputs \<noteq> [] \<and>
     set [''account_name'', ''stage'', ''amount'', ''probability'']
       \<subseteq> set (columns (frame_at (heap ex_session) (opps_df ex_session))) \<and>
     assistant_context (frame_at (heap ex_session) (opps_df ex_session)) =
       Inr \<lparr>columns = [''account_name'', ''stage'', ''amount'', ''probability''],
            rows = [[Str ''Acme'', Str ''Prospecting'', Num 1000, Num 50],
                    [Str ''Globex'', Str ''Negotiation'', Num 2000, Num 50],
                    [Str ''Initech'', Str ''Prospecting'', Num 3000, Num 50],
                    [Str ''Acme'', Str ''Closed Won'', Num 4000, Num 50],
                    [NaN, Str ''Negotiation'', Num 5000, Num 50]]\<rparr> \<and>
     (\<exists>answer. assistant env ex_inputs ex_session = Inr (Some answer))"
    by blast
qed

section \<open>Properties of Meeting Prep\<close>

lemma filter_eq_Inr:
  assumes "get_column label df = Inr vals"
  shows "filter_eq label v df =
     Inr (df\<lparr>rows := map fst (filter (\<lambda>(r, c). py_eq c v) (zip (rows df) vals))\<rparr>)"
  using assms by (simp add: filter_eq_def and_then_def)

lemma filter_zip_empty_iff:
  assumes "length xs = length ys"
  shows "filter (\<lambda>(x, y). P y) (zip xs ys) = [] \<longleftrightarrow> (\<forall>y \<in> set ys. \<not> P y)"
  using assms by (induction xs ys rule: list_induct2) auto

lemma get_column_in_columns: "get_column label df = Inr vals \<Longrightarrow> label \<in> set (columns df)"
  using label_index_None_iff [of label "columns df"]
  by (auto simp: get_column_def split: option.splits)

text \<open>
  Claim C6. Whatever account is selected: when no contact row has that account name, the
  contacts part of the brief is the text \<open>No contacts\<close> and nothing is rendered;
  when a contact row has it, the part is the rendering of the columns contact name and
  email of the rows that match. The part stands in the brief between the lines
  \<open>Contacts:\<close> and \<open>Provide:\<close>.
\<close>

theorem no_contacts_marker:
  assumes "get_column ''account_name'' contacts = Inr names"
  shows "\<exists>account_contacts.
           filter_eq ''account_name'' account contacts = Inr account_contacts \<and>
           columns account_contacts = columns contacts \<and>
           rows account_contacts
             = map fst (filter (\<lambda>(r, c). py_eq c account) (zip (rows contacts) names)) \<and>
           ((\<forall>c \<in> set names. \<not> py_eq c account) \<longrightarrow>
              contacts_section rd account_contacts = Inr ''No contacts'') \<and>
           ((\<exists>c \<in> set names. py_eq c account) \<longrightarrow>
              contacts_section rd account_contacts
                = and_then (select_columns [''contact_name'', ''email''] account_contacts)
                    (\<lambda>two. Inr (to_string rd two))) \<and>
           (\<forall>opps prompt. meeting_prompt rd account opps contacts = Inr prompt \<longrightarrow>
              (\<exists>before section after.
                 contacts_section rd account_contacts = Inr section \<and>
                 prompt = before @ ''Contacts:'' @ nl @ indent @ section @ nl @ nl @ indent @
                            ''Provide:'' @ after))"
proof -
  let ?rows = "map fst (filter (\<lambda>(r, c). py_eq c account) (zip (rows contacts) names))"
  let ?ac = "contacts\<lparr>rows := ?rows\<rparr>"
  have f: "filter_eq ''account_name'' account contacts = Inr ?ac"
    by (rule filter_eq_Inr) (rule assms)
  have len: "length (rows contacts) = length names"
    using get_column_length [OF assms] by simp
  have cols: "columns contacts \<noteq> []"
    using get_column_in_columns [OF assms] by auto
  have e: "df_empty ?ac \<longleftrightarrow> (\<forall>c \<in> set names. \<not> py_eq c account)"
    using filter_zip_empty_iff [OF len, of "\<lambda>c. py_eq c account"] cols
    by (simp add: df_empty_def)
  have none: "contacts_section rd ?ac = Inr ''No contacts''"
    if "\<forall>c \<in> set names. \<not> py_eq c account"
    using that e by (simp add: contacts_section_def)
  have some: "contacts_section rd ?ac
      = and_then (select_columns [''contact_name'', ''email''] ?ac) (\<lambda>two. Inr (to_string rd two))"
    if "\<exists>c \<in> set names. py_eq c account"
    using that e by (simp add: contacts_section_def)
  have brief: "\<exists>before section after.
                 contacts_section rd ?ac = Inr section \<and>
                 prompt = before @ ''Contacts:'' @ nl @ indent @ section @ nl @ nl @ indent @
                            ''Provide:'' @ after"
    if "meeting_prompt rd account opps contacts = Inr prompt" for opps prompt
  proof -
    from that f obtain account_opps four part where
      s: "contacts_section rd ?ac = Inr part"
      and p: "prompt = nl @ indent @ ''MEETING BRIEF for '' @ py_str rd account @ nl @
          nl @ indent @ ''Opportunities:'' @
          nl @ indent @ to_string rd four @ nl @
          nl @ indent @ ''Contacts:'' @
          nl @ indent @ part @ nl @
          nl @ indent @ ''Provide:'' @
          nl @ indent @ ''1. Account status summary'' @
          nl @ indent @ ''2. Key talking points'' @
          nl @ indent @ ''3. Next action recommendations'' @
          nl @ indent"
      by (auto simp: meeting_prompt_def and_then_Inr_iff)
    let ?before = "nl @ indent @ ''MEETING BRIEF for '' @ py_str rd account @ nl @
          nl @ indent @ ''Opportunities:'' @
          nl @ indent @ to_string rd four @ nl @
          nl @ indent"
    let ?after = "nl @ indent @ ''1. Account status summary'' @
          nl @ indent @ ''2. Key talking points'' @
          nl @ indent @ ''3. Next action recommendations'' @
          nl @ indent"
    have "prompt = ?before @ ''Contacts:'' @ nl @ indent @ part @ nl @ nl @ indent @
                            ''Provide:'' @ ?after"
      by (simp only: p append_assoc)
    with s show ?thesis by blast
  qed
  from f none some brief show ?thesis
    by (intro exI [of _ ?ac]) (simp only: simp_thms, auto)
qed


text \<open>
  In the example Globex has no contact and Acme has two; the third contact has no
  account name.
\<close>

theorem no_contacts_marker_witness:
  "\<forall>rd. get_column ''account_name'' ex_loaded_contacts
            = Inr [Str ''Acme'', Str ''Acme'', NaN] \<and>
        list_all (\<lambda>c. \<not> py_eq c (Some (Str ''Globex''))) [Str ''Acme'', Str ''Acme'', NaN] \<and>
        filter_eq ''account_name'' (Some (Str ''Globex'')) ex_loaded_contacts
          = Inr \<lparr>columns = [''contact_id'', ''account_id'', ''contact_name'', ''email'',
                            ''account_name''],
                 rows = []\<rparr> \<and>
        contacts_section rd
          \<lparr>columns = [''contact_id'', ''account_id'', ''contact_name'', ''email'',
                      ''account_name''],
           rows = []\<rparr> = Inr ''No contacts'' \<and>
        py_eq (Str ''Acme'') (Some (Str ''Acme'')) \<and>
        contacts_section rd
          \<lparr>columns = [''contact_id'', ''account_id'', ''contact_name'', ''email'',
                      ''account_name''],
           rows = [[Num 21, Num 1, Str ''Ann'', Str ''ann@acme.example'', Str ''Acme''],
                   [Num 22, Num 1, Str ''Bob'', Str ''bob@acme.example'', Str ''Acme'']]\<rparr>
          = Inr (to_string rd
                   \<lparr>columns = [''contact_name'', ''email''],
                    rows = [[Str ''Ann'', Str ''ann@acme.example''],
                            [Str ''Bob'', Str ''bob@acme.example'']]\<rparr>)"
proof
  fix rd
  let ?none = "\<lparr>columns = [''contact_id'', ''account_id'', ''contact_name'', ''email'',
                            ''account_name''],
                 rows = []\<rparr>"
  let ?two = "\<lparr>columns = [''contact_id'', ''account_id'', ''contact_name'', ''email'',
                      ''account_name''],
           rows = [[Num 21, Num 1, Str ''Ann'', Str ''ann@acme.example'', Str ''Acme''],
                   [Num 22, Num 1, Str ''Bob'', Str ''bob@acme.example'', Str ''Acme'']]\<rparr>"
  have a: "get_column ''account_name'' ex_loaded_contacts = Inr [Str ''Acme'', Str ''Acme'', NaN]"
    by (simp add: ex_loaded_contacts_def get_column_def cell_at_def)
  have b: "list_all (\<lambda>c. \<not> py_eq c (Some (Str ''Globex''))) [Str ''Acme'', Str ''Acme'', NaN]"
    by (simp add: py_eq_def)
  have c: "filter_eq ''account_name'' (Some (Str ''Globex'')) ex_loaded_contacts = Inr ?none"
    by (simp add: ex_loaded_contacts_def filter_eq_def get_column_def cell_at_def and_then_def
        py_eq_def)
  have d: "filter_eq ''account_name'' (Some (Str ''Acme'')) ex_loaded_contacts = Inr ?two"
    by (simp add: ex_loaded_contacts_def filter_eq_def get_column_def cell_at_def and_then_def
        py_eq_def)
  have e: "py_eq (Str ''Acme'') (Some (Str ''Acme''))"
    by (simp add: py_eq_def)
  have f: "select_columns [''contact_name'', ''email''] ?two
      = Inr \<lparr>columns = [''contact_name'', ''email''],
                    rows = [[Str ''Ann'', Str ''ann@acme.example''],
                            [Str ''Bob'', Str ''bob@acme.example'']]\<rparr>"
    by (simp add: select_columns_def cell_at_def)
  from no_contacts_marker [OF a, of "Some (Str ''Globex'')" rd] b c
  have g: "contacts_section rd ?none = Inr ''No contacts''"
    by (auto simp: list_all_iff)
  from no_contacts_marker [OF a, of "Some (Str ''Acme'')" rd] d e
  have "contacts_section rd ?two
      = and_then (select_columns [''contact_name'', ''email''] ?two) (\<lambda>two. Inr (to_string rd two))"
    by auto
  then have h: "contacts_section rd ?two
      = Inr (to_string rd
                   \<lparr>columns = [''contact_name'', ''email''],
                    rows = [[Str ''Ann'', Str ''ann@acme.example''],
                            [Str ''Bob'', Str ''bob@acme.example'']]\<rparr>)"
    by (simp only: f and_then_def sum.case)
  from a b c e g h
  show "get_column ''account_name'' ex_loaded_contacts
            = Inr [Str ''Acme'', Str ''Acme'', NaN] \<and>
        list_all (\<lambda>c. \<not> py_eq c (Some (Str ''Globex''))) [Str ''Acme'', Str ''Acme'', NaN] \<and>
        filter_eq ''account_name'' (Some (Str ''Globex'')) ex_loaded_contacts = Inr ?none \<and>
        contacts_section rd ?none = Inr ''No contacts'' \<and>
        py_eq (Str ''Acme'') (Some (Str ''Acme'')) \<and>
        contacts_section rd ?two
          = Inr (to_string rd
                   \<lparr>columns = [''contact_name'', ''email''],
                    rows = [[Str ''Ann'', Str ''ann@acme.example''],
                            [Str ''Bob'', Str ''bob@acme.example'']]\<rparr>)"
    by blast
qed

section \<open>Properties of the Outreach Generator\<close>

lemma py_sorted_set: "py_sorted vals = Inr ordered \<Longrightarrow> set ordered = set vals"
  by (auto simp: py_sorted_def split: if_splits)

lemma account_options_set:
  assumes "account_options df = Inr options"
  obtains names where "get_column ''account_name'' df = Inr names"
    and "set options = set names - {NaN}"
proof -
  from assms obtain names where n: "get_column ''account_name'' df = Inr names"
    and s: "py_sorted (unique (dropna names)) = Inr options"
    by (auto simp: account_options_def and_then_Inr_iff)
  from py_sorted_set [OF s] have "set options = set names - {NaN}"
    by (auto simp: set_unique dropna_def)
  with n show ?thesis by (rule that)
qed

lemma selectbox_in_options:
  "options \<noteq> [] \<Longrightarrow> \<exists>x \<in> set options. selectbox options i = Some x"
proof (cases options)
  case Nil
  assume "options \<noteq> []"
  with Nil show ?thesis by simp
next
  case (Cons x xs)
  show ?thesis
  proof (cases "i < length options")
    case True
    then have "options ! i \<in> set options" by (rule nth_mem)
    with True Cons show ?thesis by (simp add: selectbox_def)
  next
    case False
    with Cons show ?thesis by (simp add: selectbox_def)
  qed
qed

lemma selectbox_Nil: "selectbox [] i = None"
  by (simp add: selectbox_def)

lemma filter_eq_option_nonempty:
  assumes n: "get_column ''account_name'' df = Inr names"
    and a: "account \<in> set names - {NaN}"
  shows "\<exists>sub. filter_eq ''account_name'' (Some account) df = Inr sub \<and> rows sub \<noteq> [] \<and>
           columns sub = columns df"
proof -
  have len: "length (rows df) = length names"
    using get_column_length [OF n] by simp
  from a have "\<exists>c \<in> set names. py_eq c (Some account)"
    by (auto simp: py_eq_def)
  then have "filter (\<lambda>(r, c). py_eq c (Some account)) (zip (rows df) names) \<noteq> []"
    using filter_zip_empty_iff [OF len, of "\<lambda>c. py_eq c (Some account)"] by blast
  then show ?thesis
    by (simp add: filter_eq_Inr [OF n])
qed

text \<open>
  Claim C10. In the Outreach Generator, the contacts of an account that the selector
  offers are never none: the filter on an offered account name keeps at least one row,
  so the contact selector lists contact names. The placeholder \<open>No Contacts\<close> is the
  option exactly when the contact table offers no account at all.
\<close>

theorem offered_account_has_contacts:
  assumes "account_options contacts = Inr options"
  shows "\<exists>contact_df.
           filter_eq ''account_name'' (selectbox options i) contacts = Inr contact_df \<and>
           (df_empty contact_df \<longleftrightarrow> options = []) \<and>
           (options \<noteq> [] \<longrightarrow>
              contact_options contact_df = get_column ''contact_name'' contact_df) \<and>
           (options = [] \<longrightarrow> contact_options contact_df = Inr [Str ''No Contacts'']) \<and>
           (\<forall>account \<in> set options.
              \<exists>df. filter_eq ''account_name'' (Some account) contacts = Inr df \<and>
                   rows df \<noteq> [])"
proof -
  from assms obtain names where n: "get_column ''account_name'' contacts = Inr names"
    and s: "set options = set names - {NaN}"
    by (rule account_options_set)
  have offered: "\<exists>df. filter_eq ''account_name'' (Some account) contacts = Inr df \<and>
      rows df \<noteq> [] \<and> columns df = columns contacts" if "account \<in> set options" for account
    using filter_eq_option_nonempty [OF n] that s by blast
  have cols: "columns contacts \<noteq> []"
    using get_column_in_columns [OF n] by auto
  show ?thesis
  proof (cases "options = []")
    case True
    let ?df = "contacts\<lparr>rows := []\<rparr>"
    have "filter_eq ''account_name'' (selectbox options i) contacts = Inr ?df"
      by (simp add: True selectbox_Nil filter_eq_Inr [OF n] py_eq_def)
    moreover have "df_empty ?df" by (simp add: df_empty_def)
    ultimately show ?thesis
      using True by (auto simp: contact_options_def)
  next
    case False
    then obtain account where a: "account \<in> set options"
      and sel: "selectbox options i = Some account"
      using selectbox_in_options by blast
    from offered [OF a] obtain df where
      df: "filter_eq ''account_name'' (Some account) contacts = Inr df"
      and r: "rows df \<noteq> []" and c: "columns df = columns contacts"
      by blast
    from r c cols have ne: "\<not> df_empty df"
      by (simp add: df_empty_def)
    then have "contact_options df = get_column ''contact_name'' df"
      by (simp add: contact_options_def)
    with df sel ne False offered show ?thesis
      by auto
  qed
qed


text \<open>
  In the example the selector offers Acme only, and Acme has the contacts Ann and Bob;
  a contact table with no row offers nothing, and the placeholder is the option.
\<close>

theorem offered_account_has_contacts_witness:
  "account_options ex_loaded_contacts = Inr [Str ''Acme''] \<and>
   filter_eq ''account_name'' (selectbox [Str ''Acme''] 0) ex_loaded_contacts =
     Inr \<lparr>columns = [''contact_id'', ''account_id'', ''contact_name'', ''email'',
                      ''account_name''],
           rows = [[Num 21, Num 1, Str ''Ann'', Str ''ann@acme.example'', Str ''Acme''],
                   [Num 22, Num 1, Str ''Bob'', Str ''bob@acme.example'', Str ''Acme'']]\<rparr> \<and>
   contact_options
     \<lparr>columns = [''contact_id'', ''account_id'', ''contact_name'', ''email'',
                 ''account_name''],
      rows = [[Num 21, Num 1, Str ''Ann'', Str ''ann@acme.example'', Str ''Acme''],
              [Num 22, Num 1, Str ''Bob'', Str ''bob@acme.example'', Str ''Acme'']]\<rparr>
     = Inr [Str ''Ann'', Str ''Bob''] \<and>
   account_options \<lparr>columns = [''contact_name'', ''account_name''], rows = []\<rparr> = Inr [] \<and>
   contact_options \<lparr>columns = [''contact_name'', ''account_name''], rows = []\<rparr>
     = Inr [Str ''No Contacts'']"
proof -
  let ?acme = "\<lparr>columns = [''contact_id'', ''account_id'', ''contact_name'', ''email'',
                      ''account_name''],
           rows = [[Num 21, Num 1, Str ''Ann'', Str ''ann@acme.example'', Str ''Acme''],
                   [Num 22, Num 1, Str ''Bob'', Str ''bob@acme.example'', Str ''Acme'']]\<rparr>"
  let ?none = "\<lparr>columns = [''contact_name'', ''account_name''], rows = []\<rparr>"
  have a: "account_options ex_loaded_contacts = Inr [Str ''Acme'']"
    by (simp add: account_options_def ex_loaded_contacts_def get_column_def cell_at_def
        and_then_def dropna_def py_sorted_def)
  have b: "filter_eq ''account_name'' (selectbox [Str ''Acme''] 0) ex_loaded_contacts = Inr ?acme"
    by (simp add: selectbox_def ex_loaded_contacts_def filter_eq_def get_column_def cell_at_def
        and_then_def py_eq_def)
  have c: "get_column ''contact_name'' ?acme = Inr [Str ''Ann'', Str ''Bob'']"
    by (simp add: get_column_def cell_at_def)
  have d: "account_options ?none = Inr []"
    by (simp add: account_options_def get_column_def and_then_def dropna_def py_sorted_def)
  have e: "filter_eq ''account_name'' (selectbox [] 0) ?none = Inr ?none"
    by (simp add: selectbox_def filter_eq_def get_column_def and_then_def)
  from offered_account_has_contacts [OF a, of 0] b c
  have f: "contact_options ?acme = Inr [Str ''Ann'', Str ''Bob'']"
    by auto
  from offered_account_has_contacts [OF d, of 0] e
  have g: "contact_options ?none = Inr [Str ''No Contacts'']"
    by auto
  from a b d f g show ?thesis by blast
qed

section \<open>The loaded tables are not written\<close>

lemma dashboard_heap:
  assumes "dashboard env inp s = (s', shown)"
  shows "\<exists>weighted. s' = s\<lparr>heap := heap s @ [weighted]\<rparr> \<and>
           (weighted = frame_at (heap s) (opps_df s) \<or>
            (\<exists>vals. weighted = set_column ''weighted_amount'' vals (frame_at (heap s) (opps_df s))))"
proof (cases "weighted_amount (floats env) (frame_at (heap s) (opps_df s))")
  case (Inl e)
  with assms have "s' = s\<lparr>heap := heap s @ [frame_at (heap s) (opps_df s)]\<rparr>"
    by (simp add: dashboard_def copy_def frame_at_def)
  then show ?thesis by blast
next
  case (Inr vals)
  with assms have "s' = s\<lparr>heap := heap s @
      [set_column ''weighted_amount'' vals (frame_at (heap s) (opps_df s))]\<rparr>"
    by (simp add: dashboard_def copy_def frame_at_def assign_column_def Let_def)
  then show ?thesis by blast
qed

lemma render_session: "render env inp s = (s', shown) \<Longrightarrow> s' = fst (dashboard env inp s)"
  by (auto simp: render_def split: prod.splits)

lemma frame_at_append: "r < length h \<Longrightarrow> frame_at (h @ [f]) r = frame_at h r"
  by (simp add: frame_at_def nth_append)


text \<open>
  Claim C9. A run of the four tabs changes no loaded table. The only object that is
  written is the copy that the dashboard makes of the opportunity table: after the run
  the heap is the heap before the run with that one object added, the opportunity table
  with the column \<open>weighted_amount\<close> (or as it was, when computing the column raised), and
  the four variables refer to the same frames, with the same columns and rows, as before.
  The other three tabs only read: their models return no session.
\<close>

theorem views_leave_tables_unchanged:
  assumes "render env inp s = (s', shown)"
    and "accounts_df s < length (heap s)" and "contacts_df s < length (heap s)"
    and "opps_df s < length (heap s)" and "tasks_df s < length (heap s)"
  shows "accounts_df s' = accounts_df s \<and> contacts_df s' = contacts_df s \<and>
         opps_df s' = opps_df s \<and> tasks_df s' = tasks_df s \<and>
         frame_at (heap s') (accounts_df s') = frame_at (heap s) (accounts_df s) \<and>
         frame_at (heap s') (contacts_df s') = frame_at (heap s) (contacts_df s) \<and>
         frame_at (heap s') (opps_df s') = frame_at (heap s) (opps_df s) \<and>
         frame_at (heap s') (tasks_df s') = frame_at (heap s) (tasks_df s) \<and>
         (\<exists>weighted. heap s' = heap s @ [weighted] \<and>
            (weighted = frame_at (heap s) (opps_df s) \<or>
             (\<exists>vals. weighted =
                set_column ''weighted_amount'' vals (frame_at (heap s) (opps_df s)))))"
proof -
  obtain d where "dashboard env inp s = (s', d)"
    using render_session [OF assms(1)] by (cases "dashboard env inp s") simp
  from dashboard_heap [OF this] obtain weighted where
    s': "s' = s\<lparr>heap := heap s @ [weighted]\<rparr>"
    and w: "weighted = frame_at (heap s) (opps_df s) \<or>
            (\<exists>vals. weighted = set_column ''weighted_amount'' vals (frame_at (heap s) (opps_df s)))"
    by blast
  from s' have h: "heap s' = heap s @ [weighted]" by simp
  have "frame_at (heap s') r = frame_at (heap s) r" if "r < length (heap s)" for r
    using that by (simp add: h frame_at_append)
  with assms(2-5) s' w h show ?thesis by auto
qed


text \<open>A run on the example session, whatever the arithmetic, the printing and the service.\<close>

theorem views_leave_tables_unchanged_witness:
  "\<forall>env. accounts_df ex_session < length (heap ex_session) \<and>
     contacts_df ex_session < length (heap ex_session) \<and>
     opps_df ex_session < length (heap ex_session) \<and>
     tasks_df ex_session < length (heap ex_session) \<and>
     length (heap (fst (render env ex_inputs ex_session))) = 5 \<and>
     frame_at (heap (fst (render env ex_inputs ex_session))) 0 = ex_loaded_accounts \<and>
     frame_at (heap (fst (render env ex_inputs ex_session))) 1 = ex_loaded_contacts \<and>
     frame_at (heap (fst (render env ex_inputs ex_session))) 2 = ex_loaded_opportunities \<and>
     frame_at (heap (fst (render env ex_inputs ex_session))) 3 = ex_tasks"
proof
  fix env
  let ?s' = "fst (render env ex_inputs ex_session)"
  have r: "render env ex_inputs ex_session = (?s', snd (render env ex_inputs ex_session))"
    by simp
  have a: "accounts_df ex_session < length (heap ex_session)"
    and b: "contacts_df ex_session < length (heap ex_session)"
    and c: "opps_df ex_session < length (heap ex_session)"
    and d: "tasks_df ex_session < length (heap ex_session)"
    by (simp_all add: ex_session_def bind_tables_def)
  have e: "accounts_df ex_session = 0" "contacts_df ex_session = 1" "opps_df ex_session = 2"
    "tasks_df ex_session = 3"
    "frame_at (heap ex_session) 0 = ex_loaded_accounts"
    "frame_at (heap ex_session) 1 = ex_loaded_contacts"
    "frame_at (heap ex_session) (Suc 0) = ex_loaded_contacts"
    "frame_at (heap ex_session) 2 = ex_loaded_opportunities"
    "frame_at (heap ex_session) 3 = ex_tasks"
    "length (heap ex_session) = 4"
    by (simp_all add: ex_session_def bind_tables_def frame_at_def)
  from views_leave_tables_unchanged [OF r a b c d]
  have "length (heap ?s') = 5 \<and>
     frame_at (heap ?s') 0 = ex_loaded_accounts \<and>
     frame_at (heap ?s') 1 = ex_loaded_contacts \<and>
     frame_at (heap ?s') 2 = ex_loaded_opportunities \<and>
     frame_at (heap ?s') 3 = ex_tasks"
    by (auto simp: e)
  with a b c d
  show "accounts_df ex_session < length (heap ex_session) \<and>
     contacts_df ex_session < length (heap ex_session) \<and>
     opps_df ex_session < length (heap ex_session) \<and>
     tasks_df ex_session < length (heap ex_session) \<and>
     length (heap ?s') = 5 \<and>
     frame_at (heap ?s') 0 = ex_loaded_accounts \<and>
     frame_at (heap ?s') 1 = ex_loaded_contacts \<and>
     frame_at (heap ?s') 2 = ex_loaded_opportunities \<and>
     frame_at (heap ?s') 3 = ex_tasks"
    by blast
qed

section \<open>Properties of startup\<close>

lemma get_groq_client_env:
  assumes "environ world ''GROQ_API_KEY'' = Some k" and "k \<noteq> []"
  shows "get_groq_client world sv
           = (sv\<lparr>constructions := constructions sv @ [k]\<rparr>, Inr \<lparr>api_key = k\<rparr>)"
  using assms by (simp add: get_groq_client_def resolve_api_key_def truthy_def)

lemma get_groq_client_secret:
  assumes "\<not> truthy (environ world ''GROQ_API_KEY'')"
    and "secrets_get world ''GROQ_API_KEY'' = Inr (Some k)" and "k \<noteq> []"
  shows "get_groq_client world sv
           = (sv\<lparr>constructions := constructions sv @ [k]\<rparr>, Inr \<lparr>api_key = k\<rparr>)"
  using assms by (simp add: get_groq_client_def resolve_api_key_def)

lemma get_groq_client_none:
  assumes "\<not> truthy (environ world ''GROQ_API_KEY'')"
    and "\<And>k. secrets_get world ''GROQ_API_KEY'' = Inr (Some k) \<Longrightarrow> k = []"
  shows "\<exists>h. get_groq_client world sv = (sv, Inl h)"
proof (cases "secrets_get world ''GROQ_API_KEY''")
  case (Inl e)
  with assms(1) show ?thesis
    by (simp add: get_groq_client_def resolve_api_key_def)
next
  case (Inr v)
  show ?thesis
  proof (cases v)
    case None
    with Inr assms(1) show ?thesis
      by (simp add: get_groq_client_def resolve_api_key_def)
  next
    case (Some k)
    with Inr assms(2) have "k = []" by simp
    with Some Inr assms(1) show ?thesis
      by (simp add: get_groq_client_def resolve_api_key_def)
  qed
qed

lemma get_groq_client_cases:
  "(\<exists>h. get_groq_client world sv = (sv, Inl h)) \<or>
   (\<exists>k. get_groq_client world sv
          = (sv\<lparr>constructions := constructions sv @ [k]\<rparr>, Inr \<lparr>api_key = k\<rparr>))"
  by (auto simp: get_groq_client_def split: sum.splits option.splits)

lemma cache_data_keeps:
  "cache_data body sv = (sv', loaded) \<Longrightarrow>
   resource_cache sv' = resource_cache sv \<and> constructions sv' = constructions sv"
  by (auto simp: cache_data_def split: option.splits sum.splits)

lemma cache_resource_hit:
  "resource_cache sv = Some handle \<Longrightarrow> cache_resource body sv = (sv, Inr handle)"
  by (simp add: cache_resource_def)

lemma cache_resource_once:
  assumes "cached_once sv" and "cache_resource (get_groq_client world) sv = (sv', res)"
  shows "cached_once sv' \<and>
         (\<forall>handle. resource_cache sv = Some handle \<longrightarrow>
            sv' = sv \<and> res = Inr handle) \<and>
         (\<forall>handle. res = Inr handle \<longrightarrow> resource_cache sv' = Some handle)"
proof (cases "resource_cache sv")
  case (Some handle)
  with assms show ?thesis by (auto simp: cache_resource_def)
next
  case None
  with assms(1) have c: "constructions sv = []" by (simp add: cached_once_def)
  from get_groq_client_cases [of world sv] show ?thesis
  proof
    assume "\<exists>h. get_groq_client world sv = (sv, Inl h)"
    with assms None show ?thesis by (auto simp: cache_resource_def)
  next
    assume "\<exists>k. get_groq_client world sv
          = (sv\<lparr>constructions := constructions sv @ [k]\<rparr>, Inr \<lparr>api_key = k\<rparr>)"
    with assms(2) None c show ?thesis
      by (auto simp: cache_resource_def cached_once_def)
  qed
qed

lemma run_once:
  assumes "cached_once sv"
  shows "cached_once (fst (run fl rd world inp sv)) \<and>
         (\<forall>handle. resource_cache sv = Some handle \<longrightarrow>
            resource_cache (fst (run fl rd world inp sv)) = Some handle \<and>
            constructions (fst (run fl rd world inp sv)) = constructions sv)"
proof -
  obtain sv1 loaded where d: "cache_data (read_and_load world) sv = (sv1, loaded)"
    by (cases "cache_data (read_and_load world) sv") auto
  from cache_data_keeps [OF d] have k: "resource_cache sv1 = resource_cache sv"
    "constructions sv1 = constructions sv" by simp_all
  with assms have o1: "cached_once sv1" by (simp add: cached_once_def split: option.splits)
  show ?thesis
  proof (cases loaded)
    case (Inl e)
    with d have "fst (run fl rd world inp sv) = sv1" by (simp add: run_def)
    with o1 k show ?thesis by simp
  next
    case (Inr tables)
    obtain sv2 res where c: "cache_resource (get_groq_client world) sv1 = (sv2, res)"
      by (cases "cache_resource (get_groq_client world) sv1") auto
    from d Inr c have "fst (run fl rd world inp sv) = sv2"
      by (cases res) (simp_all add: run_def)
    with cache_resource_once [OF o1 c] k show ?thesis by auto
  qed
qed

lemma reruns_once:
  "cached_once sv \<Longrightarrow> cached_once (reruns fl rd interactions sv)"
proof (induction interactions arbitrary: sv)
  case Nil
  then show ?case by simp
next
  case (Cons x rest)
  obtain world inp where x: "x = (world, inp)" by (cases x)
  from run_once [OF Cons.prems, of fl rd world inp]
  have "cached_once (fst (run fl rd world inp sv))" by simp
  from Cons.IH [OF this] x show ?case by simp
qed

lemma cached_once_initial: "cached_once initial_server"
  by (simp add: cached_once_def initial_server_def)

lemma run_halts:
  assumes "resource_cache sv = None"
    and "\<not> truthy (environ world ''GROQ_API_KEY'')"
    and "\<And>k. secrets_get world ''GROQ_API_KEY'' = Inr (Some k) \<Longrightarrow> k = []"
  shows "\<exists>sv' h. run fl rd world inp sv = (sv', Inl h) \<and> resource_cache sv' = None \<and>
           constructions sv' = constructions sv"
proof -
  obtain sv1 loaded where d: "cache_data (read_and_load world) sv = (sv1, loaded)"
    by (cases "cache_data (read_and_load world) sv") auto
  from cache_data_keeps [OF d] assms(1) have k: "resource_cache sv1 = None"
    "constructions sv1 = constructions sv" by simp_all
  show ?thesis
  proof (cases loaded)
    case (Inl e)
    with d k show ?thesis by (simp add: run_def)
  next
    case (Inr tables)
    from get_groq_client_none [OF assms(2,3), of sv1] obtain h where
      "get_groq_client world sv1 = (sv1, Inl h)" by blast
    with k have "cache_resource (get_groq_client world) sv1 = (sv1, Inl h)"
      by (simp add: cache_resource_def)
    with d Inr k show ?thesis by (simp add: run_def)
  qed
qed


lemma run_renders_with_cached_client:
  assumes "cached_once sv" and "run fl rd world inp sv = (sv', Inr shown)"
  shows "\<exists>handle loaded. resource_cache sv' = Some handle \<and>
           constructions sv' = [api_key handle] \<and>
           snd (render \<lparr>floats = fl, renderer = rd, client = service world (api_key handle)\<rparr>
                  inp (bind_tables loaded)) = Inr shown"
proof -
  obtain sv1 loaded where d: "cache_data (read_and_load world) sv = (sv1, loaded)"
    by (cases "cache_data (read_and_load world) sv") auto
  from cache_data_keeps [OF d] assms(1) have o1: "cached_once sv1"
    by (simp add: cached_once_def split: option.splits)
  from d assms(2) obtain tables where t: "loaded = Inr tables"
    by (cases loaded) (simp_all add: run_def)
  obtain sv2 res where c: "cache_resource (get_groq_client world) sv1 = (sv2, res)"
    by (cases "cache_resource (get_groq_client world) sv1") auto
  from d t c assms(2) obtain handle where h: "res = Inr handle"
    by (cases res) (simp_all add: run_def)
  from d t c h assms(2) have sv2: "sv' = sv2"
    and r: "snd (render \<lparr>floats = fl, renderer = rd, client = service world (api_key handle)\<rparr>
                  inp (bind_tables tables)) = Inr shown"
    by (auto simp: run_def split: sum.splits)
  from cache_resource_once [OF o1 c] h have "resource_cache sv2 = Some handle" "cached_once sv2"
    by simp_all
  then have "resource_cache sv2 = Some handle \<and> constructions sv2 = [api_key handle]"
    by (simp add: cached_once_def)
  with sv2 r show ?thesis by blast
qed

text \<open>
  Claim C7. The key is the environment variable when that is set and not empty, whatever
  the secret store holds; otherwise it is the secret. When neither gives a key and no
  client is cached, the run ends before the tabs, by \<open>st.stop\<close> or by the exception
  of the secret store, and constructs nothing. A cached client survives every run, with
  no further construction; over any number of reruns from a fresh server at most one
  client is constructed, and a run that shows the page has rendered it with the cached
  client, the only one constructed.
\<close>

theorem credential_priority_and_single_client:
  "(\<forall>k. environ world ''GROQ_API_KEY'' = Some k \<and> k \<noteq> [] \<longrightarrow>
      get_groq_client world sv
        = (sv\<lparr>constructions := constructions sv @ [k]\<rparr>, Inr \<lparr>api_key = k\<rparr>)) \<and>
   (\<forall>k. \<not> truthy (environ world ''GROQ_API_KEY'') \<and>
      secrets_get world ''GROQ_API_KEY'' = Inr (Some k) \<and> k \<noteq> [] \<longrightarrow>
      get_groq_client world sv
        = (sv\<lparr>constructions := constructions sv @ [k]\<rparr>, Inr \<lparr>api_key = k\<rparr>)) \<and>
   (\<not> truthy (environ world ''GROQ_API_KEY'') \<and>
    (\<forall>k. secrets_get world ''GROQ_API_KEY'' = Inr (Some k) \<longrightarrow> k = []) \<and>
    resource_cache sv = None \<longrightarrow>
      (\<exists>sv' h. run fl rd world inp sv = (sv', Inl h) \<and> resource_cache sv' = None \<and>
         constructions sv' = constructions sv)) \<and>
   (\<forall>handle. cached_once sv \<and> resource_cache sv = Some handle \<longrightarrow>
      resource_cache (fst (run fl rd world inp sv)) = Some handle \<and>
      constructions (fst (run fl rd world inp sv)) = constructions sv) \<and>
   (\<forall>sv' shown. cached_once sv \<and> run fl rd world inp sv = (sv', Inr shown) \<longrightarrow>
      (\<exists>handle loaded. resource_cache sv' = Some handle \<and>
         constructions sv' = [api_key handle] \<and>
         snd (render \<lparr>floats = fl, renderer = rd,
                       client = service world (api_key handle)\<rparr>
                inp (bind_tables loaded)) = Inr shown)) \<and>
   cached_once (reruns fl rd interactions initial_server) \<and>
   length (constructions (reruns fl rd interactions initial_server)) \<le> 1"
proof (intro conjI allI impI)
  fix k
  assume "environ world ''GROQ_API_KEY'' = Some k \<and> k \<noteq> []"
  then show "get_groq_client world sv
        = (sv\<lparr>constructions := constructions sv @ [k]\<rparr>, Inr \<lparr>api_key = k\<rparr>)"
    by (simp add: get_groq_client_env)
next
  fix k
  assume "\<not> truthy (environ world ''GROQ_API_KEY'') \<and>
      secrets_get world ''GROQ_API_KEY'' = Inr (Some k) \<and> k \<noteq> []"
  then show "get_groq_client world sv
        = (sv\<lparr>constructions := constructions sv @ [k]\<rparr>, Inr \<lparr>api_key = k\<rparr>)"
    by (simp add: get_groq_client_secret)
next
  assume "\<not> truthy (environ world ''GROQ_API_KEY'') \<and>
    (\<forall>k. secrets_get world ''GROQ_API_KEY'' = Inr (Some k) \<longrightarrow> k = []) \<and>
    resource_cache sv = None"
  then show "\<exists>sv' h. run fl rd world inp sv = (sv', Inl h) \<and> resource_cache sv' = None \<and>
         constructions sv' = constructions sv"
    using run_halts [of sv world fl rd inp] by blast
next
  fix handle
  assume a: "cached_once sv \<and> resource_cache sv = Some handle"
  with run_once [of sv fl rd world inp]
  show "resource_cache (fst (run fl rd world inp sv)) = Some handle" by blast
  from a run_once [of sv fl rd world inp]
  show "constructions (fst (run fl rd world inp sv)) = constructions sv" by blast
next
  fix sv' shown
  assume "cached_once sv \<and> run fl rd world inp sv = (sv', Inr shown)"
  then show "\<exists>handle loaded. resource_cache sv' = Some handle \<and>
         constructions sv' = [api_key handle] \<and>
         snd (render \<lparr>floats = fl, renderer = rd,
                       client = service world (api_key handle)\<rparr>
                inp (bind_tables loaded)) = Inr shown"
    using run_renders_with_cached_client by blast
next
  show o: "cached_once (reruns fl rd interactions initial_server)"
    using cached_once_initial by (rule reruns_once)
  then show "length (constructions (reruns fl rd interactions initial_server)) \<le> 1"
    by (simp add: cached_once_def split: option.splits)
qed


lemma ex_read_and_load:
  "read_and_load ex_os
     = Inr (ex_loaded_accounts, ex_loaded_contacts, ex_loaded_opportunities, ex_tasks)"
  by (simp add: read_and_load_def ex_os_def and_then_def ex_load)

lemma ex_run_server:
  "fst (run fl rd ex_os inp initial_server) =
     \<lparr>data_cache = Some (ex_loaded_accounts, ex_loaded_contacts, ex_loaded_opportunities,
                          ex_tasks),
      resource_cache = Some \<lparr>api_key = ''gsk_secret''\<rparr>,
      constructions = [''gsk_secret'']\<rparr>"
  by (simp add: run_def cache_data_def cache_resource_def ex_read_and_load initial_server_def
      get_groq_client_def resolve_api_key_def truthy_def)
    (simp add: ex_os_def)

text \<open>
  The example finds its key in the secret store. With the variable set, the secret store
  is not asked, here one that raises. With neither, the first run stops.
\<close>

theorem credential_priority_and_single_client_witness:
  "\<forall>fl rd.
     \<not> truthy (environ ex_os ''GROQ_API_KEY'') \<and>
     secrets_get ex_os ''GROQ_API_KEY'' = Inr (Some ''gsk_secret'') \<and>
     get_groq_client ex_os initial_server
       = (initial_server\<lparr>constructions := [''gsk_secret'']\<rparr>, Inr \<lparr>api_key = ''gsk_secret''\<rparr>) \<and>
     get_groq_client
       (ex_os\<lparr>environ := [''GROQ_API_KEY'' \<mapsto> ''gsk_env''],
              secrets_get := (\<lambda>name. Inl (PyException ''FileNotFoundError'' ''secrets.toml''))\<rparr>)
       initial_server
       = (initial_server\<lparr>constructions := [''gsk_env'']\<rparr>, Inr \<lparr>api_key = ''gsk_env''\<rparr>) \<and>
     (\<exists>sv' h. run fl rd (ex_os\<lparr>secrets_get := (\<lambda>name. Inr None)\<rparr>) ex_inputs initial_server
                = (sv', Inl h) \<and> constructions sv' = []) \<and>
     cached_once (fst (run fl rd ex_os ex_inputs initial_server)) \<and>
     constructions (fst (run fl rd ex_os ex_inputs
                          (fst (run fl rd ex_os ex_inputs initial_server))))
       = [''gsk_secret'']"
proof (intro allI)
  fix fl rd
  let ?env = "ex_os\<lparr>environ := [''GROQ_API_KEY'' \<mapsto> ''gsk_env''],
              secrets_get := (\<lambda>name. Inl (PyException ''FileNotFoundError'' ''secrets.toml''))\<rparr>"
  let ?none = "ex_os\<lparr>secrets_get := (\<lambda>name. Inr None)\<rparr>"
  let ?sv1 = "fst (run fl rd ex_os ex_inputs initial_server)"
  have a: "\<not> truthy (environ ex_os ''GROQ_API_KEY'')"
    and b: "secrets_get ex_os ''GROQ_API_KEY'' = Inr (Some ''gsk_secret'')"
    and b': "''gsk_secret'' \<noteq> []"
    by (simp_all add: ex_os_def truthy_def)
  have c: "environ ?env ''GROQ_API_KEY'' = Some ''gsk_env''" and c': "''gsk_env'' \<noteq> []"
    by simp_all
  have d: "\<not> truthy (environ ?none ''GROQ_API_KEY'')"
    and e: "\<forall>k. secrets_get ?none ''GROQ_API_KEY'' = Inr (Some k) \<longrightarrow> k = []"
    and f: "resource_cache initial_server = None" "constructions initial_server = []"
    by (simp_all add: ex_os_def truthy_def initial_server_def)
  have g: "cached_once ?sv1" and h: "resource_cache ?sv1 = Some \<lparr>api_key = ''gsk_secret''\<rparr>"
    and i: "constructions ?sv1 = [''gsk_secret'']"
    by (simp_all add: ex_run_server cached_once_def)
  note t = credential_priority_and_single_client
  from t [of ex_os initial_server fl rd ex_inputs] a b b' f
  have 1: "get_groq_client ex_os initial_server
       = (initial_server\<lparr>constructions := [''gsk_secret'']\<rparr>, Inr \<lparr>api_key = ''gsk_secret''\<rparr>)"
    by simp
  from t [of ?env initial_server fl rd ex_inputs] c c' f
  have 2: "get_groq_client ?env initial_server
       = (initial_server\<lparr>constructions := [''gsk_env'']\<rparr>, Inr \<lparr>api_key = ''gsk_env''\<rparr>)"
    by simp
  from t [of ?none initial_server fl rd ex_inputs, THEN conjunct2, THEN conjunct2,
      THEN conjunct1] d e f(1)
  have "\<exists>sv' h. run fl rd ?none ex_inputs initial_server = (sv', Inl h) \<and>
      resource_cache sv' = None \<and> constructions sv' = constructions initial_server"
    by blast
  with f(2) have 3: "\<exists>sv' h. run fl rd ?none ex_inputs initial_server = (sv', Inl h) \<and>
      constructions sv' = []"
    by auto
  from t [of ex_os ?sv1 fl rd ex_inputs, THEN conjunct2, THEN conjunct2, THEN conjunct2,
      THEN conjunct1] g h
  have "constructions (fst (run fl rd ex_os ex_inputs ?sv1)) = constructions ?sv1"
    by blast
  with i have 4: "constructions (fst (run fl rd ex_os ex_inputs ?sv1)) = [''gsk_secret'']"
    by simp
  from a b 1 2 3 g 4
  show "\<not> truthy (environ ex_os ''GROQ_API_KEY'') \<and>
     secrets_get ex_os ''GROQ_API_KEY'' = Inr (Some ''gsk_secret'') \<and>
     get_groq_client ex_os initial_server
       = (initial_server\<lparr>constructions := [''gsk_secret'']\<rparr>, Inr \<lparr>api_key = ''gsk_secret''\<rparr>) \<and>
     get_groq_client ?env initial_server
       = (initial_server\<lparr>constructions := [''gsk_env'']\<rparr>, Inr \<lparr>api_key = ''gsk_env''\<rparr>) \<and>
     (\<exists>sv' h. run fl rd ?none ex_inputs initial_server = (sv', Inl h) \<and> constructions sv' = []) \<and>
     cached_once ?sv1 \<and>
     constructions (fst (run fl rd ex_os ex_inputs ?sv1)) = [''gsk_secret'']"
    by blast
qed

section \<open>The weighted pipeline\<close>

text \<open>The rounding on numbers whose float64 is known.\<close>

lemma round_binary64_known:
  "round_binary64 (1 / 10) = 3602879701896397 / 2 ^ 55"
  "round_binary64 (1 / 3) = 6004799503160661 / 2 ^ 54"
  "round_binary64 (- 1 / 3) = - 6004799503160661 / 2 ^ 54"
  "round_binary64 (2 ^ 53 + 1) = 2 ^ 53"
  "round_binary64 (2 ^ 53 + 3) = 2 ^ 53 + 4"
  "round_binary64 (7 / 100) = 1261007895663739 / 2 ^ 54"
  by code_simp+

















end
